theory Spec2Isabelle
  imports Main
begin

section \<open>Text helpers of the Python runtime\<close>

text \<open>
  Text is a \<^typ>\<open>string\<close>; a \<^typ>\<open>char\<close> stands for one code point below 256.
  \<open>isspace\<close> lists the code points below 256 that Python's \<open>str.isspace\<close>,
  \<open>str.strip()\<close> and \<open>str.split()\<close> treat as whitespace.
\<close>

definition whitespace_chars :: "char list" where
  "whitespace_chars =
     [CHR 0x09, CHR 0x0A, CHR 0x0B, CHR 0x0C, CHR 0x0D,
      CHR 0x1C, CHR 0x1D, CHR 0x1E, CHR 0x1F, CHR 0x20, CHR 0x85, CHR 0xA0]"

definition isspace :: "char \<Rightarrow> bool" where
  "isspace c = (c \<in> set whitespace_chars)"

text \<open>\<open>s.strip()\<close>: whitespace removed at both ends.\<close>

definition strip :: "string \<Rightarrow> string" where
  "strip s = rev (dropWhile isspace (rev (dropWhile isspace s)))"

text \<open>
  \<open>s.split()\<close> with no separator: runs of whitespace separate the words, and
  leading and trailing whitespace produce no empty word. \<open>cur\<close> is the word being read.
\<close>

fun split_ws_acc :: "string \<Rightarrow> string \<Rightarrow> string list" where
  "split_ws_acc cur [] = (if cur = [] then [] else [cur])"
| "split_ws_acc cur (c # cs) =
     (if isspace c
      then (if cur = [] then split_ws_acc [] cs else cur # split_ws_acc [] cs)
      else split_ws_acc (cur @ [c]) cs)"

definition py_split :: "string \<Rightarrow> string list" where
  "py_split s = split_ws_acc [] s"

text \<open>
  \<open>s.split(sep)\<close> for a one-character separator: every occurrence separates, so the
  result always has at least one element.
\<close>

fun split_sep_acc :: "char \<Rightarrow> string \<Rightarrow> string \<Rightarrow> string list" where
  "split_sep_acc sep cur [] = [cur]"
| "split_sep_acc sep cur (c # cs) =
     (if c = sep then cur # split_sep_acc sep [] cs
      else split_sep_acc sep (cur @ [c]) cs)"

definition py_split_on :: "char \<Rightarrow> string \<Rightarrow> string list" where
  "py_split_on sep s = split_sep_acc sep [] s"

section \<open>Identifier normalisation (\<open>extract_sku\<close>, BarCam.py)\<close>

text \<open>
  \<^verbatim>\<open>
  def extract_sku(self, barcode_value):
      try:
          return barcode_value.split()[0].split('-')[0]
      except Exception:
          return barcode_value
  \<close>
  Indexing an empty list raises \<open>IndexError\<close>, which the handler turns into the
  unchanged argument.
\<close>

definition extract_sku :: "string \<Rightarrow> string" where
  "extract_sku barcode_value =
     (case py_split barcode_value of
        [] \<Rightarrow> barcode_value
      | tok # _ \<Rightarrow>
          (case py_split_on (CHR ''-'') tok of
             [] \<Rightarrow> barcode_value
           | part # _ \<Rightarrow> part))"

text \<open>
  The rule in the words of the specification: trim, cut at the first whitespace run,
  keep the first token, cut that token at the first \<open>-\<close>. Normalisation has nothing
  to work on when the trimmed text holds no token; the raw text is then the result.
\<close>

definition normalize_spec :: "string \<Rightarrow> string" where
  "normalize_spec payload =
     (let trimmed = strip payload;
          token = takeWhile (\<lambda>c. \<not> isspace c) trimmed
      in if trimmed = [] then payload
         else takeWhile (\<lambda>c. c \<noteq> CHR ''-'') token)"

section \<open>More of the Python runtime: numbers, paths, encoding\<close>

definition digit_chars :: string where
  "digit_chars = ''0123456789''"

text \<open>\<open>str(n)\<close> for a non-negative integer, and \<open>str(i)\<close> for an integer.\<close>

fun string_of_nat :: "nat \<Rightarrow> string" where
  "string_of_nat n =
     (if n < 10 then [digit_chars ! n]
      else string_of_nat (n div 10) @ [digit_chars ! (n mod 10)])"

definition str_of_int :: "int \<Rightarrow> string" where
  "str_of_int i = (if i < 0 then CHR ''-'' # string_of_nat (nat (- i)) else string_of_nat (nat i))"

text \<open>
  \<open>str.isdigit()\<close>: true for a non-empty text of digit characters. Below code point 256
  these are \<open>0\<close> to \<open>9\<close> and the superscripts two, three and one, which \<open>int()\<close>
  rejects with \<open>ValueError\<close>.
\<close>

definition superscript_digits :: "char list" where
  "superscript_digits = [CHR 0xB2, CHR 0xB3, CHR 0xB9]"

definition isdigit :: "string \<Rightarrow> bool" where
  "isdigit s = (s \<noteq> [] \<and> list_all (\<lambda>c. c \<in> set digit_chars \<or> c \<in> set superscript_digits) s)"

fun digit_value :: "char list \<Rightarrow> char \<Rightarrow> nat" where
  "digit_value [] c = 0"
| "digit_value (d # ds) c = (if c = d then 0 else Suc (digit_value ds c))"

datatype exn = OSError | ValueError | KeyError | IndexError | ParserError | TypeError

definition py_int :: "string \<Rightarrow> exn + nat" where
  "py_int s =
     (if list_all (\<lambda>c. c \<in> set digit_chars) s
      then Inr (foldl (\<lambda>a c. 10 * a + digit_value digit_chars c) 0 s)
      else Inl ValueError)"

text \<open>\<open>os.path.join\<close> (POSIX flavour) of two components, and of three.\<close>

definition path_join :: "string \<Rightarrow> string \<Rightarrow> string" where
  "path_join a b =
     (if b \<noteq> [] \<and> hd b = CHR ''/'' then b
      else if a = [] \<or> last a = CHR ''/'' then a @ b
      else a @ ''/'' @ b)"

definition path_join3 :: "string \<Rightarrow> string \<Rightarrow> string \<Rightarrow> string" where
  "path_join3 a b c = path_join (path_join a b) c"

text \<open>\<open>str.encode()\<close>: UTF-8, one byte below code point 128 and two bytes from there on.\<close>

definition encode_char :: "char \<Rightarrow> char list" where
  "encode_char c =
     (let n = (of_char c :: nat)
      in if n < 128 then [c]
         else [char_of (192 + n div 64), char_of (128 + n mod 64)])"

definition encode :: "string \<Rightarrow> char list" where
  "encode s = concat (map encode_char s)"

section \<open>The application state and its surroundings\<close>

text \<open>
  The fields of \<open>BarcodeApp\<close> (BarCam.py) that the capture pipeline reads and writes,
  the current text of the widgets it consults, and the part of the outside world it
  changes: the log files, the image files, and the sequence of calls to the outside
  (\<open>trace\<close>). Widgets that only display (image, barcode and count labels) are left out.
\<close>

datatype backend = CAP_V4L2 | CAP_DSHOW

datatype platform = Linux | Windows | OtherSystem

datatype frame = Frame nat

text \<open>
  A decoded symbol. \<open>data_text\<close> is \<open>barcode.data.decode("utf-8")\<close>: the payload as
  text, or \<open>None\<close> when the bytes are not UTF-8 and decoding raises.
\<close>

datatype symbol = Symbol (data_text: "string option")

text \<open>A value in a pandas data frame, with its \<open>str()\<close> rendering for floats.\<close>

datatype cell = PyStr string | PyInt int | PyFloat string

fun py_str :: "cell \<Rightarrow> string" where
  "py_str (PyStr s) = s"
| "py_str (PyInt i) = str_of_int i"
| "py_str (PyFloat r) = r"

record dataframe =
  columns :: "string list"
  rows :: "cell list list"

datatype event =
    ShowError string
  | ShowInfo string
  | PrintMsg string
  | Beep bool
  | SerialOpen string bool
  | SerialClose string
  | SerialWrite string "char list" bool
  | CamOpen nat "backend option"
  | CamRelease nat "backend option"
  | CamRead
  | MakeDirs string bool
  | ImWrite string bool

datatype probe = Opened | NotOpened | ProbeRaises

text \<open>
  How far an append to the log gets: it succeeds, \<open>open\<close> raises, or a write raises
  after the given number of characters have reached the file.
\<close>

datatype log_outcome = LogOk | LogOpenFails | LogWriteFails nat

text \<open>What the outside world answers during one call.\<close>

record env =
  platform_system :: platform
  video_capture :: "nat \<Rightarrow> backend option \<Rightarrow> probe"
  serial_opens :: "string \<Rightarrow> bool"
  camera_read :: "frame option"
  decode_result :: "symbol list option"
  cwd :: string
  now_compact :: string
  now_display :: string
  makedirs_ok :: bool
  imwrite_ok :: bool
  log_write :: log_outcome
  serial_write_ok :: bool
  read_csv :: "string \<Rightarrow> exn + dataframe"

record app =
  capture :: "(nat \<times> backend option) option"
  timer_active :: bool
  camera_index :: "nat option"
  last_barcode :: "string option"
  barcode_set :: "string set"
  save_location :: string
  serial_port :: "string option"
  serial_port_combo :: string
  camera_combo :: string
  order_input :: string
  beep_enabled :: "bool option"
  beep_checkbox :: bool
  sku_table :: "(cell \<times> cell) list"
  status_label :: string
  files :: "string \<rightharpoonup> string"
  images :: "(string \<times> frame) list"
  trace :: "event list"

definition emit :: "event list \<Rightarrow> app \<Rightarrow> app" where
  "emit es st = st\<lparr>trace := trace st @ es\<rparr>"

text \<open>\<open>self.settings.get("beep_enabled", True)\<close>.\<close>

definition beep_setting :: "app \<Rightarrow> bool" where
  "beep_setting st = (case beep_enabled st of None \<Rightarrow> True | Some b \<Rightarrow> b)"

text \<open>\<open>self.order_input.text().strip() or "NoOrder"\<close>.\<close>

definition order_number :: "app \<Rightarrow> string" where
  "order_number st = (let t = strip (order_input st) in if t = [] then ''NoOrder'' else t)"

definition add_to_table :: "cell \<Rightarrow> cell \<Rightarrow> app \<Rightarrow> app" where
  "add_to_table timestamp sku st = st\<lparr>sku_table := sku_table st @ [(timestamp, sku)]\<rparr>"

section \<open>Stopping (\<open>stop_camera\<close>)\<close>

text \<open>
  BarCam.py: the timer is stopped, the capture released and forgotten, the serial port
  closed and forgotten; an exception of \<open>release\<close> or \<open>close\<close> is swallowed. The set of
  scanned identifiers and \<open>last_barcode\<close> are not touched.
\<close>

definition stop_camera :: "app \<Rightarrow> app" where
  "stop_camera st =
     (let st1 = st\<lparr>timer_active := False\<rparr>;
          st2 = (case capture st1 of
                   None \<Rightarrow> st1
                 | Some (idx, b) \<Rightarrow> (emit [CamRelease idx b] st1)\<lparr>capture := None\<rparr>);
          st3 = (case serial_port st2 of
                   None \<Rightarrow> st2
                 | Some port \<Rightarrow> (emit [SerialClose port] st2)\<lparr>serial_port := None\<rparr>)
      in st3\<lparr>status_label := ''Status: Disconnected''\<rparr>)"



section \<open>Persisting one scan (\<open>capture_image\<close>)\<close>

text \<open>
  Without a save folder the current directory is taken and kept. \<open>os.makedirs\<close> is
  outside every \<open>try\<close>: when it raises, the exception leaves \<open>capture_image\<close>. A failed
  image write and a failed log append are caught and printed.
\<close>

definition choose_folder :: "env \<Rightarrow> app \<Rightarrow> app" where
  "choose_folder e st =
     (if save_location st = []
      then emit [ShowInfo (''No folder selected - using '' @ cwd e)]
             (st\<lparr>save_location := cwd e\<rparr>)
      else st)"

definition image_name :: "string \<Rightarrow> string \<Rightarrow> string" where
  "image_name sku_value timestamp = sku_value @ ''_'' @ timestamp @ ''.jpg''"

definition log_line :: "string \<Rightarrow> string \<Rightarrow> string" where
  "log_line timestamp sku_value = timestamp @ '','' @ sku_value @ [CHR 0x0A]"

definition log_header :: string where
  "log_header = ''Timestamp,SKU'' @ [CHR 0x0A]"

definition write_image :: "env \<Rightarrow> string \<Rightarrow> frame \<Rightarrow> app \<Rightarrow> app" where
  "write_image e filename fr st =
     (if imwrite_ok e
      then emit [ImWrite filename True] (st\<lparr>images := images st @ [(filename, fr)]\<rparr>)
      else emit [ImWrite filename False, PrintMsg ''Failed to write image''] st)"

definition append_log :: "env \<Rightarrow> string \<Rightarrow> string \<Rightarrow> app \<Rightarrow> app" where
  "append_log e log_path line st =
     (let file_exists = (files st log_path \<noteq> None);
          old = (case files st log_path of None \<Rightarrow> [] | Some c \<Rightarrow> c);
          text = (if file_exists then line else log_header @ line)
      in case log_write e of
           LogOk \<Rightarrow> st\<lparr>files := (files st)(log_path \<mapsto> old @ text)\<rparr>
         | LogOpenFails \<Rightarrow> emit [PrintMsg ''Failed to write log''] st
         | LogWriteFails n \<Rightarrow>
             emit [PrintMsg ''Failed to write log'']
               (st\<lparr>files := (files st)(log_path \<mapsto> old @ take n text)\<rparr>))"

definition capture_image :: "env \<Rightarrow> frame \<Rightarrow> string \<Rightarrow> app \<Rightarrow> exn option \<times> app" where
  "capture_image e fr sku_value st =
     (let st1 = choose_folder e st;
          order_folder = path_join (save_location st1) (order_number st1)
      in if \<not> makedirs_ok e then (Some OSError, emit [MakeDirs order_folder False] st1)
         else
           let st2 = emit [MakeDirs order_folder True] st1;
               timestamp = now_compact e;
               filename = path_join order_folder (image_name sku_value timestamp);
               st3 = write_image e filename fr st2;
               st4 = (if beep_setting st3 \<and> beep_checkbox st3 then emit [Beep True] st3 else st3);
               log_path = path_join order_folder ''barcode_log.csv''
           in (None, append_log e log_path (log_line timestamp sku_value) st4))"

section \<open>One tick (\<open>update_frame\<close>)\<close>

text \<open>
  The body of the loop over the decoded symbols. A payload that does not decode is
  skipped. The outline drawn on the frame is left out: its errors are swallowed and it
  changes no field. \<open>cur\<close> is \<open>current_barcode\<close>.
\<close>

definition forward_serial :: "env \<Rightarrow> string \<Rightarrow> app \<Rightarrow> app" where
  "forward_serial e barcode_data st =
     (case serial_port st of
        None \<Rightarrow> st
      | Some port \<Rightarrow>
          if serial_write_ok e
          then emit [SerialWrite port (encode (barcode_data @ [CHR 0x0A])) True] st
          else
            let st1 = emit [SerialWrite port (encode (barcode_data @ [CHR 0x0A])) False] st
            in if beep_setting st1 then emit [Beep False] st1 else st1)"

definition process_barcode ::
  "env \<Rightarrow> frame \<Rightarrow> symbol \<Rightarrow> string option \<times> app \<Rightarrow> exn option \<times> string option \<times> app" where
  "process_barcode e fr barcode cs =
     (case cs of (cur, st) \<Rightarrow>
        (case data_text barcode of
           None \<Rightarrow> (None, cur, st)
         | Some txt \<Rightarrow>
             let barcode_data = strip txt;
                 sku_id = extract_sku barcode_data
             in if sku_id \<notin> barcode_set st
                then
                  (case capture_image e fr sku_id (st\<lparr>barcode_set := insert sku_id (barcode_set st)\<rparr>) of
                     (Some x, st1) \<Rightarrow> (Some x, Some barcode_data, st1)
                   | (None, st1) \<Rightarrow>
                       let st2 = st1\<lparr>last_barcode := Some barcode_data\<rparr>;
                           st3 = add_to_table (PyStr (now_display e)) (PyStr sku_id) st2
                       in (None, Some barcode_data, forward_serial e barcode_data st3))
                else (None, Some barcode_data, st)))"

fun process_barcodes ::
  "env \<Rightarrow> frame \<Rightarrow> symbol list \<Rightarrow> string option \<times> app \<Rightarrow> exn option \<times> string option \<times> app" where
  "process_barcodes e fr [] cs = (None, cs)"
| "process_barcodes e fr (b # bs) cs =
     (case process_barcode e fr b cs of
        (Some x, cs1) \<Rightarrow> (Some x, cs1)
      | (None, cs1) \<Rightarrow> process_barcodes e fr bs cs1)"

text \<open>
  Without a capture nothing happens. A failed read stops the camera and shows an
  error. A raising decoder counts as no symbols.
\<close>

definition update_frame :: "env \<Rightarrow> app \<Rightarrow> exn option \<times> app" where
  "update_frame e st =
     (case capture st of
        None \<Rightarrow> (None, st)
      | Some cam \<Rightarrow>
          (case camera_read e of
             None \<Rightarrow>
               (None, emit [ShowError ''Camera disconnected or returned no frames.'']
                        (stop_camera (emit [CamRead] st)))
           | Some fr \<Rightarrow>
               let barcodes = (case decode_result e of None \<Rightarrow> [] | Some bs \<Rightarrow> bs)
               in case process_barcodes e fr barcodes (None, emit [CamRead] st) of
                    (x, cur, st1) \<Rightarrow> (x, st1)))"

section \<open>Manual snapshot (\<open>capture_snapshot\<close>)\<close>

definition capture_snapshot :: "env \<Rightarrow> app \<Rightarrow> exn option \<times> app" where
  "capture_snapshot e st =
     (case capture st of
        None \<Rightarrow> (None, st)
      | Some cam \<Rightarrow>
          (case camera_read e of
             Some fr \<Rightarrow> capture_image e fr ''manual'' (emit [CamRead] st)
           | None \<Rightarrow>
               (None, emit [CamRead,
                   ShowError ''Failed to capture snapshot (camera not returning frames).''] st)))"

section \<open>Replaying the log (\<open>load_existing_barcodes\<close>)\<close>

text \<open>
  \<open>pd.read_csv\<close> belongs to the pandas library; it is the parameter \<open>read_csv\<close> of the
  surroundings, from the text of the file to a data frame or an exception. A row
  shorter than the header reads as \<open>nan\<close>, as pandas fills it. The set is cleared
  before anything is read, and every exception of the replay is swallowed.
\<close>

definition cell_at :: "string list \<Rightarrow> cell list \<Rightarrow> string \<Rightarrow> cell" where
  "cell_at cols r name = (case map_of (zip cols r) name of Some c \<Rightarrow> c | None \<Rightarrow> PyFloat ''nan'')"

definition df_column :: "dataframe \<Rightarrow> string \<Rightarrow> exn + cell list" where
  "df_column df name =
     (if name \<in> set (columns df) then Inr (map (\<lambda>r. cell_at (columns df) r name) (rows df))
      else Inl KeyError)"

definition load_existing_barcodes :: "env \<Rightarrow> string \<Rightarrow> app \<Rightarrow> app" where
  "load_existing_barcodes e order st =
     (let st1 = st\<lparr>barcode_set := {}\<rparr>;
          log_path = path_join3 (save_location st1) order ''barcode_log.csv''
      in case files st1 log_path of
           None \<Rightarrow> st1
         | Some content \<Rightarrow>
             (case read_csv e content of
                Inl x \<Rightarrow> st1
              | Inr df \<Rightarrow>
                  (case df_column df ''SKU'' of
                     Inl x \<Rightarrow> st1
                   | Inr skus \<Rightarrow>
                       let st2 = st1\<lparr>barcode_set := barcode_set st1 \<union> set (map py_str skus)\<rparr>;
                           st3 = st2\<lparr>sku_table := []\<rparr>
                       in if rows df = [] then st3
                          else (case df_column df ''Timestamp'' of
                                  Inl x \<Rightarrow> st3
                                | Inr stamps \<Rightarrow> st3\<lparr>sku_table := zip stamps skus\<rparr>))))"

section \<open>Opening devices and starting (\<open>start_camera\<close>)\<close>

definition get_preferred_backend :: "env \<Rightarrow> backend option" where
  "get_preferred_backend e =
     (case platform_system e of
        Linux \<Rightarrow> Some CAP_V4L2
      | Windows \<Rightarrow> Some CAP_DSHOW
      | OtherSystem \<Rightarrow> None)"

text \<open>
  \<open>detect_cameras\<close>: every index below \<open>max_test\<close> is probed with the preferred backend;
  an opened probe is recorded and released.
\<close>

definition detect_one :: "env \<Rightarrow> nat \<Rightarrow> string list \<times> event list" where
  "detect_one e index =
     (let b = get_preferred_backend e
      in case video_capture e index b of
           Opened \<Rightarrow> ([string_of_nat index], [CamOpen index b, CamRelease index b])
         | NotOpened \<Rightarrow> ([], [CamOpen index b])
         | ProbeRaises \<Rightarrow> ([], [CamOpen index b]))"

definition detect_cameras :: "env \<Rightarrow> nat \<Rightarrow> string list \<times> event list" where
  "detect_cameras e max_test =
     (let rs = map (detect_one e) [0 ..< max_test]
      in (concat (map fst rs), concat (map snd rs)))"

text \<open>\<open>try_open\<close>: a capture that reports itself closed is released.\<close>

definition try_open :: "env \<Rightarrow> nat \<Rightarrow> backend option \<Rightarrow> (nat \<times> backend option) option \<times> event list" where
  "try_open e index backend_flag =
     (case video_capture e index backend_flag of
        Opened \<Rightarrow> (Some (index, backend_flag), [CamOpen index backend_flag])
      | NotOpened \<Rightarrow> (None, [CamOpen index backend_flag, CamRelease index backend_flag])
      | ProbeRaises \<Rightarrow> (None, [CamOpen index backend_flag]))"

text \<open>
  \<open>_open_camera_with_fallback\<close>: the strategies in order, each tried only when the
  ones before it failed. \<open>or_else\<close> is that sequencing, with the calls made so far.
\<close>

definition or_else ::
  "'a option \<times> event list \<Rightarrow> 'a option \<times> event list \<Rightarrow> 'a option \<times> event list" where
  "or_else first second =
     (case first of
        (Some c, es) \<Rightarrow> (Some c, es)
      | (None, es) \<Rightarrow> (fst second, es @ snd second))"

definition open_camera_with_fallback ::
  "env \<Rightarrow> nat \<Rightarrow> (nat \<times> backend option) option \<times> event list" where
  "open_camera_with_fallback e idx =
     (let backend = get_preferred_backend e;
          preferred = (if backend \<noteq> None then try_open e idx backend else (None, []));
          dshow = (if platform_system e = Windows \<and> Some CAP_DSHOW \<noteq> backend
                   then try_open e idx (Some CAP_DSHOW) else (None, []));
          v4l2 = (if platform_system e = Linux \<and> Some CAP_V4L2 \<noteq> backend
                  then try_open e idx (Some CAP_V4L2) else (None, []))
      in or_else preferred (or_else (try_open e idx None) (or_else dshow v4l2)))"

text \<open>
  \<open>_scan_and_open_any_camera\<close>: the first index that opens; the combo box is set to it.
\<close>

fun scan_indices ::
  "env \<Rightarrow> nat list \<Rightarrow> ((nat \<times> backend option) \<times> nat) option \<times> event list" where
  "scan_indices e [] = (None, [])"
| "scan_indices e (idx # rest) =
     (case open_camera_with_fallback e idx of
        (Some cap, es) \<Rightarrow> (Some (cap, idx), es)
      | (None, es) \<Rightarrow> (case scan_indices e rest of (r, es') \<Rightarrow> (r, es @ es')))"

definition scan_and_open_any_camera ::
  "env \<Rightarrow> nat \<Rightarrow> app \<Rightarrow> (nat \<times> backend option) option \<times> app" where
  "scan_and_open_any_camera e max_scan st =
     (case scan_indices e [0 ..< max_scan] of
        (Some (cap, idx), es) \<Rightarrow> (Some cap, (emit es st)\<lparr>camera_combo := string_of_nat idx\<rparr>)
      | (None, es) \<Rightarrow> (None, emit es st))"

text \<open>
  \<open>start_camera\<close>. The serial port comes first; when it does not open the function
  returns at once (the error dialog also carries the text of the exception, which is
  left out). Then the index is read from the combo box or detected, the camera opened,
  the log replayed when a save folder is set, and the timer started. The request for a
  resolution of 1280 by 720 changes no field and is left out.
\<close>

definition camera_open_failed :: string where
  "camera_open_failed =
     ''Failed to open any camera. Make sure camera isn't used by another app ''
     @ ''and permissions are allowed.''"

definition started_status :: "nat option \<Rightarrow> string" where
  "started_status index =
     ''Status: Camera started (index ''
     @ (case index of None \<Rightarrow> ''unknown'' | Some n \<Rightarrow> string_of_nat n) @ '')''"

definition open_serial :: "env \<Rightarrow> app \<Rightarrow> bool \<times> app" where
  "open_serial e st =
     (let serial_selection = serial_port_combo st
      in if serial_selection \<noteq> ''None''
         then (if serial_opens e serial_selection
               then (True, (emit [SerialOpen serial_selection True] st)
                             \<lparr>serial_port := Some serial_selection,
                              status_label := ''Connected to '' @ serial_selection\<rparr>)
               else (False, emit [SerialOpen serial_selection False, ShowError ''Serial error''] st))
         else (True, st\<lparr>serial_port := None\<rparr>))"

definition choose_index :: "env \<Rightarrow> app \<Rightarrow> exn option \<times> nat option \<times> app" where
  "choose_index e st =
     (let selected_text = camera_combo st
      in if selected_text \<noteq> [] \<and> isdigit selected_text
         then (case py_int selected_text of
                 Inl x \<Rightarrow> (Some x, None, st)
               | Inr n \<Rightarrow> (None, Some n, st))
         else (case detect_cameras e 8 of
                 ([], es) \<Rightarrow> (None, None, emit es st)
               | (d # ds, es) \<Rightarrow>
                   (case py_int d of
                      Inl x \<Rightarrow> (Some x, None, emit es st)
                    | Inr n \<Rightarrow> (None, Some n, emit es st))))"

definition open_camera :: "env \<Rightarrow> nat option \<Rightarrow> app \<Rightarrow> (nat \<times> backend option) option \<times> app" where
  "open_camera e use_index st =
     (case use_index of
        Some i \<Rightarrow>
          (case open_camera_with_fallback e i of
             (Some cap, es) \<Rightarrow> (Some cap, emit es st)
           | (None, es) \<Rightarrow> scan_and_open_any_camera e 8 (emit es st))
      | None \<Rightarrow> scan_and_open_any_camera e 8 st)"

definition start_camera :: "env \<Rightarrow> app \<Rightarrow> exn option \<times> app" where
  "start_camera e st =
     (case open_serial e st of
        (False, st1) \<Rightarrow> (None, st1)
      | (True, st1) \<Rightarrow>
          (case choose_index e st1 of
             (Some x, use_index, st2) \<Rightarrow> (Some x, st2)
           | (None, use_index, st2) \<Rightarrow>
               (case open_camera e use_index st2 of
                  (None, st3) \<Rightarrow>
                    (None, (emit [ShowError camera_open_failed] st3)
                             \<lparr>status_label := ''Status: Camera open failed''\<rparr>)
                | (Some cap, st3) \<Rightarrow>
                    let st4 = st3\<lparr>capture := Some cap, camera_index := use_index\<rparr>;
                        st5 = (if save_location st4 \<noteq> []
                               then load_existing_barcodes e (order_number st4) st4 else st4)
                    in (None, st5\<lparr>timer_active := True,
                                  status_label := started_status (camera_index st5)\<rparr>))))"

section \<open>Vocabulary for the statements\<close>

text \<open>
  The folder, the log file and the image file that \<open>capture_image\<close> computes, the text
  a log holds after appends, the stripped texts of the symbols of a tick, the scans among
  them that are new (identifier and text, in order), and the data handed to the serial
  port in a sequence of calls.
\<close>

definition location :: "env \<Rightarrow> app \<Rightarrow> string" where
  "location e st = (if save_location st = [] then cwd e else save_location st)"

definition order_folder :: "env \<Rightarrow> app \<Rightarrow> string" where
  "order_folder e st = path_join (location e st) (order_number st)"

definition log_path_of :: "env \<Rightarrow> app \<Rightarrow> string" where
  "log_path_of e st = path_join (order_folder e st) ''barcode_log.csv''"

definition image_path :: "env \<Rightarrow> app \<Rightarrow> string \<Rightarrow> string" where
  "image_path e st sku = path_join (order_folder e st) (image_name sku (now_compact e))"

definition log_text :: "string option \<Rightarrow> string" where
  "log_text old = (case old of None \<Rightarrow> log_header | Some c \<Rightarrow> c)"

definition log_appended :: "(string \<rightharpoonup> string) \<Rightarrow> string \<Rightarrow> string list \<Rightarrow> (string \<rightharpoonup> string)" where
  "log_appended fs p lines = (if lines = [] then fs else fs(p \<mapsto> log_text (fs p) @ concat lines))"

fun decoded_texts :: "symbol list \<Rightarrow> string list" where
  "decoded_texts [] = []"
| "decoded_texts (b # bs) =
     (case data_text b of None \<Rightarrow> decoded_texts bs | Some t \<Rightarrow> strip t # decoded_texts bs)"

fun new_scans :: "string set \<Rightarrow> string list \<Rightarrow> (string \<times> string) list" where
  "new_scans seen [] = []"
| "new_scans seen (d # ds) =
     (if extract_sku d \<in> seen then new_scans seen ds
      else (extract_sku d, d) # new_scans (insert (extract_sku d) seen) ds)"

fun serial_data :: "event \<Rightarrow> char list list" where
  "serial_data (SerialWrite port d ok) = [d]"
| "serial_data ev = []"

text \<open>What a new scan does to the state, once \<open>os.makedirs\<close> has succeeded.\<close>

definition record_scan :: "env \<Rightarrow> frame \<Rightarrow> string \<Rightarrow> app \<Rightarrow> app" where
  "record_scan e fr barcode_data st =
     (let sku_id = extract_sku barcode_data;
          st1 = snd (capture_image e fr sku_id (st\<lparr>barcode_set := insert sku_id (barcode_set st)\<rparr>));
          st2 = st1\<lparr>last_barcode := Some barcode_data\<rparr>;
          st3 = add_to_table (PyStr (now_display e)) (PyStr sku_id) st2
      in forward_serial e barcode_data st3)"

definition record_scans :: "env \<Rightarrow> frame \<Rightarrow> (string \<times> string) list \<Rightarrow> app \<Rightarrow> app" where
  "record_scans e fr scans st = foldl (\<lambda>s kd. record_scan e fr (snd kd) s) st scans"

definition serial_written :: "event list \<Rightarrow> char list list" where
  "serial_written tr = concat (map serial_data tr)"

text \<open>The stripped texts a tick decodes, and the scans among them that are new.\<close>

definition tick_texts :: "env \<Rightarrow> string list" where
  "tick_texts e = decoded_texts (case decode_result e of None \<Rightarrow> [] | Some bs \<Rightarrow> bs)"

definition tick_scans :: "env \<Rightarrow> app \<Rightarrow> (string \<times> string) list" where
  "tick_scans e st = new_scans (barcode_set st) (tick_texts e)"

text \<open>The number of success tones in a sequence of calls.\<close>

definition success_beeps :: "event list \<Rightarrow> nat" where
  "success_beeps tr = count_list tr (Beep True)"

text \<open>The texts of the information dialogs in a sequence of calls.\<close>

fun notice_text :: "event \<Rightarrow> string list" where
  "notice_text (ShowInfo msg) = [msg]"
| "notice_text ev = []"

definition notices :: "event list \<Rightarrow> string list" where
  "notices tr = concat (map notice_text tr)"

section \<open>Sample states and surroundings\<close>

text \<open>
  The state after \<open>__init__\<close>, a running session with a save folder, an order and an
  open serial port, and surroundings in which every call to the outside succeeds.
\<close>

definition idle_app :: app where
  "idle_app =
     \<lparr>capture = None, timer_active = False, camera_index = None, last_barcode = None,
      barcode_set = {}, save_location = [], serial_port = None,
      serial_port_combo = ''None'', camera_combo = ''0'', order_input = [],
      beep_enabled = None, beep_checkbox = True, sku_table = [],
      status_label = ''Status: Not Connected'', files = Map.empty, images = [], trace = []\<rparr>"

definition running_app :: app where
  "running_app =
     idle_app\<lparr>capture := Some (0, None), timer_active := True, camera_index := Some 0,
              save_location := ''/data'', order_input := ''ORD7'',
              serial_port := Some ''COM3'', serial_port_combo := ''COM3''\<rparr>"

definition quiet_env :: env where
  "quiet_env =
     \<lparr>platform_system = Linux,
      video_capture = (\<lambda>i b. if i = 0 then Opened else NotOpened),
      serial_opens = (\<lambda>p. True), camera_read = Some (Frame 1), decode_result = Some [],
      cwd = ''/home/op'', now_compact = ''20240101-120000'',
      now_display = ''2024-01-01 12:00:00'',
      makedirs_ok = True, imwrite_ok = True, log_write = LogOk, serial_write_ok = True,
      read_csv = (\<lambda>s. Inl ParserError)\<rparr>"

text \<open>Surroundings in which the decoder returns the two symbols \<open>A\<close> and \<open>B\<close>.\<close>

definition two_codes_env :: env where
  "two_codes_env = quiet_env\<lparr>decode_result := Some [Symbol (Some ''A''), Symbol (Some ''B'')]\<rparr>"

text \<open>
  Surroundings in which the decoder returns one symbol with the payload
  \<open>SKU-1234 extra\<close>, and surroundings in which the log cannot be opened for appending.
\<close>

definition sku_env :: env where
  "sku_env = quiet_env\<lparr>decode_result := Some [Symbol (Some ''SKU-1234 extra'')]\<rparr>"

definition log_fails_env :: env where
  "log_fails_env = two_codes_env\<lparr>log_write := LogOpenFails\<rparr>"

text \<open>
  Surroundings in which no serial port opens. A stopped session with a save folder, an
  order and a log that holds one record for \<open>A\<close>. Surroundings in which the decoder
  returns the symbol \<open>007\<close> and \<open>read_csv\<close> returns the record of \<open>007\<close> with the
  identifier column read as the integer 7.
\<close>

definition no_serial_env :: env where
  "no_serial_env = quiet_env\<lparr>serial_opens := (\<lambda>p. False)\<rparr>"

definition logged_app :: app where
  "logged_app =
     idle_app\<lparr>save_location := ''/data'', order_input := ''ORD7'', barcode_set := {''A''},
              files := [''/data/ORD7/barcode_log.csv''
                          \<mapsto> log_header @ log_line ''20231231-090000'' ''A'']\<rparr>"

definition numeric_env :: env where
  "numeric_env =
     quiet_env\<lparr>decode_result := Some [Symbol (Some ''007'')],
               read_csv := (\<lambda>s. Inr \<lparr>columns = [''Timestamp'', ''SKU''],
                                       rows = [[PyStr ''20240101-120000'', PyInt 7]]\<rparr>)\<rparr>"

section \<open>Properties of the text helpers\<close>

lemma split_ws_acc_word:
  "cur \<noteq> [] \<Longrightarrow>
   split_ws_acc cur s =
     (cur @ takeWhile (\<lambda>c. \<not> isspace c) s) # split_ws_acc [] (dropWhile (\<lambda>c. \<not> isspace c) s)"
proof (induction s arbitrary: cur)
  case Nil
  then show ?case by simp
next
  case (Cons c cs)
  show ?case
  proof (cases "isspace c")
    case True
    with Cons.prems show ?thesis by simp
  next
    case False
    have "cur @ [c] \<noteq> []" by simp
    from Cons.IH [OF this] False show ?thesis by simp
  qed
qed

lemma split_ws_acc_skip:
  "split_ws_acc [] s = split_ws_acc [] (dropWhile isspace s)"
  by (induction s) simp_all

lemma split_ws_acc_start:
  assumes "s \<noteq> []" and "\<not> isspace (hd s)"
  shows "split_ws_acc [] s =
           takeWhile (\<lambda>c. \<not> isspace c) s # split_ws_acc [] (dropWhile (\<lambda>c. \<not> isspace c) s)"
proof -
  from assms obtain c cs where s: "s = c # cs" and c: "\<not> isspace c"
    by (cases s) auto
  have "split_ws_acc [] s = split_ws_acc [c] cs"
    using s c by simp
  also have "\<dots> = ([c] @ takeWhile (\<lambda>c. \<not> isspace c) cs)
                    # split_ws_acc [] (dropWhile (\<lambda>c. \<not> isspace c) cs)"
    by (rule split_ws_acc_word) simp
  finally show ?thesis using s c by simp
qed

lemma py_split_cases:
  "py_split s =
     (if dropWhile isspace s = [] then []
      else takeWhile (\<lambda>c. \<not> isspace c) (dropWhile isspace s)
           # split_ws_acc [] (dropWhile (\<lambda>c. \<not> isspace c) (dropWhile isspace s)))"
proof (cases "dropWhile isspace s = []")
  case True
  have "py_split s = split_ws_acc [] (dropWhile isspace s)"
    unfolding py_split_def by (rule split_ws_acc_skip)
  then have "py_split s = []"
    unfolding True by simp
  with True show ?thesis by (simp del: dropWhile_eq_Nil_conv)
next
  case False
  then have "\<not> isspace (hd (dropWhile isspace s))"
    by (rule hd_dropWhile)
  from split_ws_acc_start [OF False this] False show ?thesis
    unfolding py_split_def using split_ws_acc_skip [of s]
    by (simp del: dropWhile_eq_Nil_conv)
qed

lemma split_sep_acc_first:
  "split_sep_acc sep cur s \<noteq> [] \<and>
   hd (split_sep_acc sep cur s) = cur @ takeWhile (\<lambda>c. c \<noteq> sep) s"
  by (induction s arbitrary: cur) simp_all

lemma strip_empty_iff: "strip s = [] \<longleftrightarrow> dropWhile isspace s = []"
proof
  assume "strip s = []"
  then have all: "\<forall>c \<in> set (dropWhile isspace s). isspace c"
    by (simp add: strip_def)
  show "dropWhile isspace s = []"
  proof (rule ccontr)
    assume ne: "dropWhile isspace s \<noteq> []"
    then have "\<not> isspace (hd (dropWhile isspace s))" by (rule hd_dropWhile)
    moreover from ne have "hd (dropWhile isspace s) \<in> set (dropWhile isspace s)"
      by (rule hd_in_set)
    ultimately show False using all by blast
  qed
next
  assume e: "dropWhile isspace s = []"
  show "strip s = []" unfolding strip_def e by simp
qed

lemma token_of_strip:
  "takeWhile (\<lambda>c. \<not> isspace c) (strip s) = takeWhile (\<lambda>c. \<not> isspace c) (dropWhile isspace s)"
proof -
  define t where "t = dropWhile isspace s"
  define u where "u = rev (dropWhile isspace (rev t))"
  define w where "w = rev (takeWhile isspace (rev t))"
  have t: "t = u @ w"
  proof -
    have "rev (takeWhile isspace (rev t) @ dropWhile isspace (rev t)) = t"
      by (simp only: takeWhile_dropWhile_id rev_rev_ident)
    then show ?thesis by (simp only: rev_append u_def w_def)
  qed
  have w: "\<forall>c \<in> set w. isspace c"
    unfolding w_def using set_takeWhileD by fastforce
  have "takeWhile (\<lambda>c. \<not> isspace c) (u @ w) = takeWhile (\<lambda>c. \<not> isspace c) u"
  proof (cases "\<forall>c \<in> set u. \<not> isspace c")
    case True
    have tw: "takeWhile (\<lambda>c. \<not> isspace c) w = []"
      using w by (cases w) auto
    from True have tu: "takeWhile (\<lambda>c. \<not> isspace c) u = u"
      by simp
    from True have h: "takeWhile (\<lambda>c. \<not> isspace c) (u @ w) = u @ takeWhile (\<lambda>c. \<not> isspace c) w"
      by (simp add: takeWhile_append2)
    show ?thesis unfolding h tw tu by simp
  next
    case False
    then obtain c where "c \<in> set u" and "\<not> \<not> isspace c" by blast
    then show ?thesis by (rule takeWhile_append1)
  qed
  with t show ?thesis by (simp add: strip_def u_def t_def)
qed

lemma extract_sku_eq_normalize_spec: "extract_sku s = normalize_spec s"
proof (cases "dropWhile isspace s = []")
  case True
  then show ?thesis
    by (simp add: extract_sku_def normalize_spec_def py_split_cases strip_empty_iff
        del: dropWhile_eq_Nil_conv)
next
  case False
  let ?tok = "takeWhile (\<lambda>c. \<not> isspace c) (dropWhile isspace s)"
  obtain p ps where ps: "py_split_on (CHR ''-'') ?tok = p # ps"
    and p: "p = takeWhile (\<lambda>c. c \<noteq> CHR ''-'') ?tok"
    using split_sep_acc_first [of "CHR ''-''" "[]" ?tok]
    unfolding py_split_on_def by (cases "split_sep_acc CHR ''-'' [] ?tok") auto
  from False ps p show ?thesis
    by (simp add: extract_sku_def normalize_spec_def py_split_cases strip_empty_iff
        token_of_strip del: dropWhile_eq_Nil_conv)
qed

lemma extract_sku_plain:
  assumes a: "\<forall>c \<in> set s. \<not> isspace c \<and> c \<noteq> CHR ''-''"
  shows "extract_sku s = s"
proof -
  from a have ns: "\<forall>c \<in> set s. \<not> isspace c" and nd: "\<forall>c \<in> set s. c \<noteq> CHR ''-''"
    by auto
  show "extract_sku s = s"
  proof (cases s)
    case Nil
    then show ?thesis by (simp add: extract_sku_def py_split_def)
  next
    case (Cons c cs)
    with ns have d: "dropWhile isspace s = s" by simp
    from ns have t: "takeWhile (\<lambda>c. \<not> isspace c) s = s" by (simp add: takeWhile_eq_all_conv)
    from nd have t': "takeWhile (\<lambda>c. c \<noteq> CHR ''-'') s = s" by (simp add: takeWhile_eq_all_conv)
    have "strip s = s"
    proof -
      from ns have "\<forall>c \<in> set (rev s). \<not> isspace c" by simp
      then have "dropWhile isspace (rev s) = rev s"
        by (cases "rev s") simp_all
      with d show ?thesis by (simp add: strip_def)
    qed
    with Cons t t' show ?thesis
      by (simp add: extract_sku_eq_normalize_spec normalize_spec_def)
  qed
qed

section \<open>Properties of persisting and of one tick\<close>

lemma serial_written_simps [simp]:
  "serial_written [] = []"
  "serial_written (ev # tr) = serial_data ev @ serial_written tr"
  by (simp_all add: serial_written_def)

lemma serial_written_append [simp]:
  "serial_written (a @ b) = serial_written a @ serial_written b"
  by (simp add: serial_written_def)

lemma location_idem [simp]: "location e (st\<lparr>save_location := location e st\<rparr>) = location e st"
  by (simp add: location_def)

lemma capture_image_fst:
  "fst (capture_image e fr sku st) = (if makedirs_ok e then None else Some OSError)"
  by (simp add: capture_image_def Let_def)


lemma emit_fields [simp]:
  "capture (emit es st) = capture st"
  "timer_active (emit es st) = timer_active st"
  "camera_index (emit es st) = camera_index st"
  "last_barcode (emit es st) = last_barcode st"
  "barcode_set (emit es st) = barcode_set st"
  "save_location (emit es st) = save_location st"
  "serial_port (emit es st) = serial_port st"
  "serial_port_combo (emit es st) = serial_port_combo st"
  "camera_combo (emit es st) = camera_combo st"
  "order_input (emit es st) = order_input st"
  "beep_enabled (emit es st) = beep_enabled st"
  "beep_checkbox (emit es st) = beep_checkbox st"
  "sku_table (emit es st) = sku_table st"
  "status_label (emit es st) = status_label st"
  "files (emit es st) = files st"
  "images (emit es st) = images st"
  "trace (emit es st) = trace st @ es"
  by (simp_all add: emit_def)

lemma choose_folder_fields [simp]:
  "capture (choose_folder e st) = capture st"
  "timer_active (choose_folder e st) = timer_active st"
  "last_barcode (choose_folder e st) = last_barcode st"
  "barcode_set (choose_folder e st) = barcode_set st"
  "save_location (choose_folder e st) = location e st"
  "serial_port (choose_folder e st) = serial_port st"
  "order_input (choose_folder e st) = order_input st"
  "beep_enabled (choose_folder e st) = beep_enabled st"
  "beep_checkbox (choose_folder e st) = beep_checkbox st"
  "sku_table (choose_folder e st) = sku_table st"
  "files (choose_folder e st) = files st"
  "images (choose_folder e st) = images st"
  "serial_written (trace (choose_folder e st)) = serial_written (trace st)"
  by (simp_all add: choose_folder_def location_def)

lemma write_image_fields [simp]:
  "capture (write_image e p fr st) = capture st"
  "timer_active (write_image e p fr st) = timer_active st"
  "last_barcode (write_image e p fr st) = last_barcode st"
  "barcode_set (write_image e p fr st) = barcode_set st"
  "save_location (write_image e p fr st) = save_location st"
  "serial_port (write_image e p fr st) = serial_port st"
  "order_input (write_image e p fr st) = order_input st"
  "beep_enabled (write_image e p fr st) = beep_enabled st"
  "beep_checkbox (write_image e p fr st) = beep_checkbox st"
  "sku_table (write_image e p fr st) = sku_table st"
  "files (write_image e p fr st) = files st"
  "images (write_image e p fr st) = images st @ (if imwrite_ok e then [(p, fr)] else [])"
  "serial_written (trace (write_image e p fr st)) = serial_written (trace st)"
  by (simp_all add: write_image_def)

lemma append_log_fields [simp]:
  "capture (append_log e p l st) = capture st"
  "timer_active (append_log e p l st) = timer_active st"
  "last_barcode (append_log e p l st) = last_barcode st"
  "barcode_set (append_log e p l st) = barcode_set st"
  "save_location (append_log e p l st) = save_location st"
  "serial_port (append_log e p l st) = serial_port st"
  "order_input (append_log e p l st) = order_input st"
  "beep_enabled (append_log e p l st) = beep_enabled st"
  "beep_checkbox (append_log e p l st) = beep_checkbox st"
  "sku_table (append_log e p l st) = sku_table st"
  "images (append_log e p l st) = images st"
  "serial_written (trace (append_log e p l st)) = serial_written (trace st)"
  by (simp_all add: append_log_def Let_def split: log_outcome.splits)

lemma append_log_files:
  "log_write e = LogOk \<Longrightarrow> files (append_log e p l st) = log_appended (files st) p [l]"
  by (auto simp add: append_log_def Let_def log_appended_def log_text_def split: option.splits)

lemma location_cong:
  "save_location st' = location e st \<Longrightarrow> location e st' = location e st"
  by (simp add: location_def)

lemma capture_image_keeps:
  "barcode_set (snd (capture_image e fr sku st)) = barcode_set st"
  "capture (snd (capture_image e fr sku st)) = capture st"
  "serial_port (snd (capture_image e fr sku st)) = serial_port st"
  "order_input (snd (capture_image e fr sku st)) = order_input st"
  "beep_enabled (snd (capture_image e fr sku st)) = beep_enabled st"
  "beep_checkbox (snd (capture_image e fr sku st)) = beep_checkbox st"
  "last_barcode (snd (capture_image e fr sku st)) = last_barcode st"
  "sku_table (snd (capture_image e fr sku st)) = sku_table st"
  "timer_active (snd (capture_image e fr sku st)) = timer_active st"
  "save_location (snd (capture_image e fr sku st)) = location e st"
  "serial_written (trace (snd (capture_image e fr sku st))) = serial_written (trace st)"
  by (simp_all add: capture_image_def Let_def)

lemma order_number_cong: "order_input st' = order_input st \<Longrightarrow> order_number st' = order_number st"
  by (simp add: order_number_def)

lemma capture_image_images:
  "makedirs_ok e \<Longrightarrow>
   images (snd (capture_image e fr sku st)) =
     images st @ (if imwrite_ok e then [(image_path e st sku, fr)] else [])"
  by (simp add: capture_image_def Let_def image_path_def order_folder_def
      order_number_cong [of "choose_folder e st" st])

lemma capture_image_files:
  "makedirs_ok e \<Longrightarrow> log_write e = LogOk \<Longrightarrow>
   files (snd (capture_image e fr sku st)) =
     log_appended (files st) (log_path_of e st) [log_line (now_compact e) sku]"
  by (simp add: capture_image_def Let_def log_path_of_def order_folder_def append_log_files
      order_number_cong [of "choose_folder e st" st])


lemma add_to_table_fields [simp]:
  "capture (add_to_table a b st) = capture st"
  "timer_active (add_to_table a b st) = timer_active st"
  "last_barcode (add_to_table a b st) = last_barcode st"
  "barcode_set (add_to_table a b st) = barcode_set st"
  "save_location (add_to_table a b st) = save_location st"
  "serial_port (add_to_table a b st) = serial_port st"
  "order_input (add_to_table a b st) = order_input st"
  "beep_enabled (add_to_table a b st) = beep_enabled st"
  "beep_checkbox (add_to_table a b st) = beep_checkbox st"
  "files (add_to_table a b st) = files st"
  "images (add_to_table a b st) = images st"
  "trace (add_to_table a b st) = trace st"
  "sku_table (add_to_table a b st) = sku_table st @ [(a, b)]"
  by (simp_all add: add_to_table_def)

lemma forward_serial_fields [simp]:
  "capture (forward_serial e d st) = capture st"
  "timer_active (forward_serial e d st) = timer_active st"
  "last_barcode (forward_serial e d st) = last_barcode st"
  "barcode_set (forward_serial e d st) = barcode_set st"
  "save_location (forward_serial e d st) = save_location st"
  "serial_port (forward_serial e d st) = serial_port st"
  "order_input (forward_serial e d st) = order_input st"
  "beep_enabled (forward_serial e d st) = beep_enabled st"
  "beep_checkbox (forward_serial e d st) = beep_checkbox st"
  "sku_table (forward_serial e d st) = sku_table st"
  "files (forward_serial e d st) = files st"
  "images (forward_serial e d st) = images st"
  by (simp_all add: forward_serial_def Let_def split: option.splits)

lemma forward_serial_written:
  "serial_written (trace (forward_serial e d st)) =
     serial_written (trace st) @
       (case serial_port st of None \<Rightarrow> [] | Some port \<Rightarrow> [encode (d @ [CHR 0x0A])])"
  by (simp add: forward_serial_def Let_def split: option.splits)

lemma record_scan_fields:
  "barcode_set (record_scan e fr d st) = insert (extract_sku d) (barcode_set st)"
  "capture (record_scan e fr d st) = capture st"
  "serial_port (record_scan e fr d st) = serial_port st"
  "order_input (record_scan e fr d st) = order_input st"
  "beep_enabled (record_scan e fr d st) = beep_enabled st"
  "beep_checkbox (record_scan e fr d st) = beep_checkbox st"
  "timer_active (record_scan e fr d st) = timer_active st"
  "last_barcode (record_scan e fr d st) = Some d"
  "save_location (record_scan e fr d st) = location e st"
  "sku_table (record_scan e fr d st) =
     sku_table st @ [(PyStr (now_display e), PyStr (extract_sku d))]"
  by (simp_all add: record_scan_def Let_def capture_image_keeps location_def)

lemma record_scan_written:
  "serial_written (trace (record_scan e fr d st)) =
     serial_written (trace st) @
       (case serial_port st of None \<Rightarrow> [] | Some port \<Rightarrow> [encode (d @ [CHR 0x0A])])"
  by (simp add: record_scan_def Let_def forward_serial_written capture_image_keeps)

lemma image_path_update [simp]:
  "image_path e (st\<lparr>barcode_set := S\<rparr>) k = image_path e st k"
  "log_path_of e (st\<lparr>barcode_set := S\<rparr>) = log_path_of e st"
  by (simp_all add: image_path_def log_path_of_def order_folder_def location_def order_number_def)

lemma record_scan_images:
  "makedirs_ok e \<Longrightarrow>
   images (record_scan e fr d st) =
     images st @ (if imwrite_ok e then [(image_path e st (extract_sku d), fr)] else [])"
  by (simp add: record_scan_def Let_def capture_image_images)

lemma record_scan_files:
  "makedirs_ok e \<Longrightarrow> log_write e = LogOk \<Longrightarrow>
   files (record_scan e fr d st) =
     log_appended (files st) (log_path_of e st) [log_line (now_compact e) (extract_sku d)]"
  by (simp add: record_scan_def Let_def capture_image_files)

lemma record_scan_paths:
  "image_path e (record_scan e fr d st) k = image_path e st k"
  "log_path_of e (record_scan e fr d st) = log_path_of e st"
  "location e (record_scan e fr d st) = location e st"
  by (simp_all add: image_path_def log_path_of_def order_folder_def record_scan_fields
      location_cong [of "record_scan e fr d st" e st]
      order_number_cong [of "record_scan e fr d st" st])

lemma process_barcode_skip:
  "data_text b = None \<Longrightarrow> process_barcode e fr b (cur, st) = (None, cur, st)"
  by (simp add: process_barcode_def)

lemma process_barcode_seen:
  "data_text b = Some t \<Longrightarrow> extract_sku (strip t) \<in> barcode_set st \<Longrightarrow>
   process_barcode e fr b (cur, st) = (None, Some (strip t), st)"
  by (simp add: process_barcode_def Let_def)

lemma process_barcode_new:
  assumes "data_text b = Some t" and "extract_sku (strip t) \<notin> barcode_set st"
    and "makedirs_ok e"
  shows "process_barcode e fr b (cur, st) =
           (None, Some (strip t), record_scan e fr (strip t) st)"
proof -
  let ?k = "extract_sku (strip t)"
  let ?st0 = "st\<lparr>barcode_set := insert ?k (barcode_set st)\<rparr>"
  obtain x st1 where c: "capture_image e fr ?k ?st0 = (x, st1)"
    by (cases "capture_image e fr ?k ?st0")
  with capture_image_fst [of e fr ?k ?st0] assms(3) have x: "x = None" by simp
  from c have st1: "st1 = snd (capture_image e fr ?k ?st0)" by simp
  show ?thesis
    using assms(1,2) c x
    by (simp add: process_barcode_def Let_def record_scan_def)
qed

lemma process_barcodes_ok:
  "makedirs_ok e \<Longrightarrow>
   fst (process_barcodes e fr syms (cur, st)) = None \<and>
   snd (snd (process_barcodes e fr syms (cur, st))) =
     record_scans e fr (new_scans (barcode_set st) (decoded_texts syms)) st"
proof (induction syms arbitrary: cur st)
  case Nil
  then show ?case by (simp add: record_scans_def)
next
  case (Cons b bs)
  show ?case
  proof (cases "data_text b")
    case None
    with Cons show ?thesis by (simp add: process_barcode_skip)
  next
    case (Some t)
    show ?thesis
    proof (cases "extract_sku (strip t) \<in> barcode_set st")
      case True
      with Some Cons show ?thesis by (simp add: process_barcode_seen)
    next
      case False
      with Some Cons.prems have
        "process_barcode e fr b (cur, st) = (None, Some (strip t), record_scan e fr (strip t) st)"
        by (simp add: process_barcode_new)
      with Some False Cons.IH [OF Cons.prems, of "Some (strip t)" "record_scan e fr (strip t) st"]
      show ?thesis by (simp add: record_scans_def record_scan_fields)
    qed
  qed
qed

lemma record_scans_simps [simp]:
  "record_scans e fr [] st = st"
  "record_scans e fr (kd # ks) st = record_scans e fr ks (record_scan e fr (snd kd) st)"
  by (simp_all add: record_scans_def)

lemma record_scans_keeps:
  "capture (record_scans e fr ks st) = capture st"
  "serial_port (record_scans e fr ks st) = serial_port st"
  "order_input (record_scans e fr ks st) = order_input st"
  "beep_enabled (record_scans e fr ks st) = beep_enabled st"
  "beep_checkbox (record_scans e fr ks st) = beep_checkbox st"
  "timer_active (record_scans e fr ks st) = timer_active st"
  by (induction ks arbitrary: st; simp add: record_scan_fields)+

lemma record_scans_paths:
  "image_path e (record_scans e fr ks st) k = image_path e st k"
  "log_path_of e (record_scans e fr ks st) = log_path_of e st"
  "location e (record_scans e fr ks st) = location e st"
  by (induction ks arbitrary: st; simp add: record_scan_paths)+

lemma record_scans_set:
  "barcode_set (record_scans e fr ks st) = barcode_set st \<union> extract_sku ` snd ` set ks"
  by (induction ks arbitrary: st) (auto simp add: record_scan_fields)

lemma record_scans_images:
  "makedirs_ok e \<Longrightarrow>
   images (record_scans e fr ks st) =
     images st @ (if imwrite_ok e
                  then map (\<lambda>kd. (image_path e st (extract_sku (snd kd)), fr)) ks else [])"
  by (induction ks arbitrary: st) (simp_all add: record_scan_images record_scan_paths)

lemma log_appended_step:
  "log_appended (log_appended fs p [l]) p ls = log_appended fs p (l # ls)"
  by (simp add: log_appended_def log_text_def)

lemma record_scans_files:
  "makedirs_ok e \<Longrightarrow> log_write e = LogOk \<Longrightarrow>
   files (record_scans e fr ks st) =
     log_appended (files st) (log_path_of e st)
       (map (\<lambda>kd. log_line (now_compact e) (extract_sku (snd kd))) ks)"
proof (induction ks arbitrary: st)
  case Nil
  then show ?case by (simp add: log_appended_def)
next
  case (Cons kd ks)
  then show ?case
    by (simp add: record_scan_files record_scan_paths log_appended_step)
qed

lemma record_scans_written:
  "serial_written (trace (record_scans e fr ks st)) =
     serial_written (trace st) @
       (case serial_port st of
          None \<Rightarrow> []
        | Some port \<Rightarrow> map (\<lambda>kd. encode (snd kd @ [CHR 0x0A])) ks)"
  by (induction ks arbitrary: st)
     (simp_all add: record_scan_written record_scan_fields split: option.splits)

lemma new_scans_snd: "snd ` set (new_scans seen ds) \<subseteq> set ds"
  by (induction ds arbitrary: seen) (auto split: if_splits)

lemma new_scans_fst: "(k, d) \<in> set (new_scans seen ds) \<Longrightarrow> k = extract_sku d"
  by (induction ds arbitrary: seen) (auto split: if_splits)

lemma new_scans_ids:
  "seen \<union> extract_sku ` snd ` set (new_scans seen ds) = seen \<union> extract_sku ` set ds"
proof (induction ds arbitrary: seen)
  case Nil
  then show ?case by simp
next
  case (Cons a ds)
  show ?case
  proof (cases "extract_sku a \<in> seen")
    case True
    with Cons [of seen] show ?thesis by auto
  next
    case False
    have "seen \<union> extract_sku ` snd ` set (new_scans seen (a # ds)) =
          insert (extract_sku a) seen
            \<union> extract_sku ` snd ` set (new_scans (insert (extract_sku a) seen) ds)"
      using False by simp
    also have "\<dots> = insert (extract_sku a) seen \<union> extract_sku ` set ds"
      by (rule Cons)
    finally show ?thesis by simp
  qed
qed

lemma new_scans_none: "extract_sku ` set ds \<subseteq> seen \<Longrightarrow> new_scans seen ds = []"
  by (induction ds) auto

lemma update_frame_running:
  assumes "capture st = Some cam" and "camera_read e = Some fr" and "makedirs_ok e"
  shows "update_frame e st =
           (None, record_scans e fr
                    (new_scans (barcode_set st)
                       (decoded_texts (case decode_result e of None \<Rightarrow> [] | Some bs \<Rightarrow> bs)))
                    (emit [CamRead] st))"
proof -
  let ?bs = "case decode_result e of None \<Rightarrow> [] | Some bs \<Rightarrow> bs"
  from process_barcodes_ok [OF assms(3), of fr ?bs None "emit [CamRead] st"]
  show ?thesis
    using assms(1,2)
    by (cases "process_barcodes e fr ?bs (None, emit [CamRead] st)")
       (simp add: update_frame_def Let_def)
qed




lemma paths_emit [simp]:
  "image_path e (emit es st) k = image_path e st k"
  "log_path_of e (emit es st) = log_path_of e st"
  "location e (emit es st) = location e st"
  by (simp_all add: image_path_def log_path_of_def order_folder_def location_def order_number_def)

lemma capture_image_appends_one_line:
  assumes "makedirs_ok e" and "log_write e = LogOk"
  shows "files (snd (capture_image e fr sku st)) (log_path_of e st) =
           Some ((case files st (log_path_of e st) of None \<Rightarrow> log_header | Some old \<Rightarrow> old)
                 @ log_line (now_compact e) sku)"
  using assms by (simp add: capture_image_files log_appended_def log_text_def)

lemma success_beeps_simps [simp]:
  "success_beeps [] = 0"
  "success_beeps (ev # tr) = (if ev = Beep True then 1 else 0) + success_beeps tr"
  "success_beeps (a @ b) = success_beeps a + success_beeps b"
  by (simp_all add: success_beeps_def)

lemma beep_setting_cong: "beep_enabled st' = beep_enabled st \<Longrightarrow> beep_setting st' = beep_setting st"
  by (simp add: beep_setting_def)

lemma small_steps_beeps [simp]:
  "success_beeps (trace (choose_folder e st)) = success_beeps (trace st)"
  "success_beeps (trace (write_image e p fr st)) = success_beeps (trace st)"
  "success_beeps (trace (append_log e p l st)) = success_beeps (trace st)"
  "success_beeps (trace (forward_serial e d st)) = success_beeps (trace st)"
  by (simp_all add: choose_folder_def write_image_def append_log_def forward_serial_def Let_def
      split: log_outcome.splits option.splits)

lemma capture_image_beeps:
  "makedirs_ok e \<Longrightarrow>
   success_beeps (trace (snd (capture_image e fr sku st))) =
     success_beeps (trace st) + (if beep_setting st \<and> beep_checkbox st then 1 else 0)"
  by (simp add: capture_image_def Let_def
      beep_setting_cong [of "write_image e p fr' (emit es (choose_folder e st))" st for p fr' es])

lemma record_scan_beeps:
  "makedirs_ok e \<Longrightarrow>
   success_beeps (trace (record_scan e fr d st)) =
     success_beeps (trace st) + (if beep_setting st \<and> beep_checkbox st then 1 else 0)"
  by (simp add: record_scan_def Let_def capture_image_beeps
      beep_setting_cong [of "st\<lparr>barcode_set := S\<rparr>" st for S])

lemma record_scans_beeps:
  "makedirs_ok e \<Longrightarrow>
   success_beeps (trace (record_scans e fr ks st)) =
     success_beeps (trace st) + (if beep_setting st \<and> beep_checkbox st then length ks else 0)"
proof (induction ks arbitrary: st)
  case Nil
  then show ?case by simp
next
  case (Cons kd ks)
  have "beep_setting (record_scan e fr (snd kd) st) = beep_setting st"
    by (rule beep_setting_cong) (simp add: record_scan_fields)
  with Cons show ?case by (simp add: record_scan_beeps record_scan_fields)
qed

lemma append_log_open_fails:
  "log_write e = LogOpenFails \<Longrightarrow> files (append_log e p l st) = files st"
  by (simp add: append_log_def Let_def)

lemma capture_image_files_open_fails:
  "log_write e = LogOpenFails \<Longrightarrow> files (snd (capture_image e fr sku st)) = files st"
  by (simp add: capture_image_def Let_def append_log_open_fails)

lemma record_scans_files_open_fails:
  "log_write e = LogOpenFails \<Longrightarrow> files (record_scans e fr ks st) = files st"
proof (induction ks arbitrary: st)
  case Nil
  then show ?case by simp
next
  case (Cons kd ks)
  have "files (record_scan e fr (snd kd) st) = files st"
    using Cons.prems by (simp add: record_scan_def Let_def capture_image_files_open_fails)
  with Cons show ?case by simp
qed

lemma process_barcodes_all_seen:
  "extract_sku ` set (decoded_texts syms) \<subseteq> barcode_set st \<Longrightarrow>
   fst (process_barcodes e fr syms (cur, st)) = None \<and>
   snd (snd (process_barcodes e fr syms (cur, st))) = st"
proof (induction syms arbitrary: cur)
  case Nil
  then show ?case by simp
next
  case (Cons b bs)
  show ?case
  proof (cases "data_text b")
    case None
    with Cons show ?thesis by (simp add: process_barcode_skip)
  next
    case (Some t)
    with Cons.prems have "extract_sku (strip t) \<in> barcode_set st" by simp
    with Some Cons show ?thesis by (simp add: process_barcode_seen)
  qed
qed

lemma update_frame_nothing_new:
  assumes "capture st = Some cam" and "camera_read e = Some fr"
    and "extract_sku ` set (tick_texts e) \<subseteq> barcode_set st"
  shows "update_frame e st = (None, emit [CamRead] st)"
proof -
  let ?bs = "case decode_result e of None \<Rightarrow> [] | Some bs \<Rightarrow> bs"
  have "extract_sku ` set (decoded_texts ?bs) \<subseteq> barcode_set (emit [CamRead] st)"
    using assms(3) by (simp add: tick_texts_def)
  from process_barcodes_all_seen [OF this, of e fr None]
  show ?thesis
    using assms(1,2)
    by (cases "process_barcodes e fr ?bs (None, emit [CamRead] st)")
       (simp add: update_frame_def Let_def)
qed

lemma update_frame_tick:
  assumes "capture st = Some cam" and "camera_read e = Some fr" and "makedirs_ok e"
  shows "update_frame e st = (None, record_scans e fr (tick_scans e st) (emit [CamRead] st))"
  using update_frame_running [OF assms] by (simp add: tick_scans_def tick_texts_def)

lemma new_scans_keys:
  "fst ` set (new_scans seen ds) = extract_sku ` set ds - seen"
  by (induction ds arbitrary: seen) auto

lemma new_scans_distinct: "distinct (map fst (new_scans seen ds))"
  by (induction ds arbitrary: seen) (auto simp add: new_scans_keys)

lemma new_scans_map_fst:
  "map (\<lambda>kd. f (extract_sku (snd kd))) (new_scans seen ds) = map (\<lambda>kd. f (fst kd)) (new_scans seen ds)"
  by (rule map_cong) (auto dest: new_scans_fst)

lemma two_codes_env_fields:
  "camera_read two_codes_env = Some (Frame 1)"
  "makedirs_ok two_codes_env"
  "imwrite_ok two_codes_env"
  "log_write two_codes_env = LogOk"
  "now_compact two_codes_env = ''20240101-120000''"
  "tick_texts two_codes_env = [''A'', ''B'']"
  by (simp_all add: two_codes_env_def quiet_env_def tick_texts_def strip_def isspace_def
      whitespace_chars_def)

lemma extract_sku_A_B: "extract_sku ''A'' = ''A''" "extract_sku ''B'' = ''B''"
  by (simp_all add: extract_sku_def py_split_def py_split_on_def isspace_def whitespace_chars_def)

lemma running_app_fields:
  "capture running_app = Some (0, None)"
  "barcode_set running_app = {}"
  "images running_app = []"
  "files running_app = Map.empty"
  "trace running_app = []"
  "serial_port running_app = Some ''COM3''"
  "save_location running_app = ''/data''"
  "order_number running_app = ''ORD7''"
  by (simp_all add: running_app_def idle_app_def order_number_def strip_def isspace_def
      whitespace_chars_def)

lemma running_app_paths:
  "log_path_of e running_app = ''/data/ORD7/barcode_log.csv''"
  "image_path two_codes_env running_app ''A'' = ''/data/ORD7/A_20240101-120000.jpg''"
  "image_path two_codes_env running_app ''B'' = ''/data/ORD7/B_20240101-120000.jpg''"
  by (simp_all add: log_path_of_def image_path_def order_folder_def location_def
      running_app_fields two_codes_env_fields path_join_def image_name_def)

lemma log_fails_env_fields:
  "camera_read log_fails_env = Some (Frame 1)"
  "makedirs_ok log_fails_env"
  "imwrite_ok log_fails_env"
  "log_write log_fails_env = LogOpenFails"
  "now_compact log_fails_env = ''20240101-120000''"
  "tick_texts log_fails_env = [''A'', ''B'']"
  by (simp_all add: log_fails_env_def two_codes_env_def quiet_env_def tick_texts_def strip_def
      isspace_def whitespace_chars_def)

lemma image_path_env:
  "now_compact e' = now_compact e \<Longrightarrow> cwd e' = cwd e \<Longrightarrow> image_path e' st k = image_path e st k"
  by (simp add: image_path_def order_folder_def location_def)

lemma sku_env_fields:
  "camera_read sku_env = Some (Frame 1)"
  "makedirs_ok sku_env"
  "tick_texts sku_env = [''SKU-1234 extra'']"
  by (simp_all add: sku_env_def quiet_env_def tick_texts_def strip_def isspace_def
      whitespace_chars_def)

lemma extract_sku_example: "extract_sku ''SKU-1234 extra'' = ''SKU''"
  by (simp add: extract_sku_def py_split_def py_split_on_def isspace_def whitespace_chars_def)

lemma update_frame_written:
  assumes "capture st = Some cam" and "camera_read e = Some fr" and "makedirs_ok e"
  shows "serial_written (trace (snd (update_frame e st))) =
           serial_written (trace st)
           @ (case serial_port st of
                None \<Rightarrow> []
              | Some port \<Rightarrow> map (\<lambda>kd. encode (snd kd @ [CHR 0x0A])) (tick_scans e st))"
  unfolding update_frame_tick [OF assms] by (simp add: record_scans_written)

lemma load_existing_barcodes_keeps:
  "trace (load_existing_barcodes e order st) = trace st"
  "capture (load_existing_barcodes e order st) = capture st"
  "serial_port (load_existing_barcodes e order st) = serial_port st"
  "files (load_existing_barcodes e order st) = files st"
  "images (load_existing_barcodes e order st) = images st"
  "save_location (load_existing_barcodes e order st) = save_location st"
  "order_input (load_existing_barcodes e order st) = order_input st"
  "camera_index (load_existing_barcodes e order st) = camera_index st"
  by (simp_all add: load_existing_barcodes_def Let_def split: option.splits sum.splits)

lemma load_existing_barcodes_failed:
  assumes "files st (path_join3 (save_location st) order ''barcode_log.csv'') = Some content"
    and "read_csv e content = Inl x
         \<or> (\<exists>df. read_csv e content = Inr df \<and> ''SKU'' \<notin> set (columns df))"
  shows "load_existing_barcodes e order st = st\<lparr>barcode_set := {}\<rparr>"
  using assms by (auto simp add: load_existing_barcodes_def Let_def df_column_def)

lemma load_existing_barcodes_read:
  assumes "files st (path_join3 (save_location st) order ''barcode_log.csv'') = Some content"
    and "read_csv e content = Inr df" and "''SKU'' \<in> set (columns df)"
  shows "barcode_set (load_existing_barcodes e order st) =
           (\<lambda>r. py_str (cell_at (columns df) r ''SKU'')) ` set (rows df)"
  using assms
  by (auto simp add: load_existing_barcodes_def Let_def df_column_def split: sum.splits)

lemma choose_index_trace:
  "\<exists>es. trace (snd (snd (choose_index e st))) = trace st @ es"
  by (simp add: choose_index_def Let_def split: sum.splits list.splits prod.splits)

lemma scan_and_open_any_camera_trace:
  "\<exists>es. trace (snd (scan_and_open_any_camera e n st)) = trace st @ es"
  by (simp add: scan_and_open_any_camera_def split: prod.splits option.splits)

lemma open_camera_trace:
  "\<exists>es. trace (snd (open_camera e u st)) = trace st @ es"
proof (cases u)
  case None
  then show ?thesis by (simp add: open_camera_def scan_and_open_any_camera_trace)
next
  case (Some i)
  show ?thesis
  proof (cases "open_camera_with_fallback e i")
    case (Pair r es)
    show ?thesis
    proof (cases r)
      case None
      obtain es' where "trace (snd (scan_and_open_any_camera e 8 (emit es st)))
                          = trace (emit es st) @ es'"
        using scan_and_open_any_camera_trace by blast
      with Some Pair None show ?thesis by (simp add: open_camera_def)
    next
      case (Some cap)
      with \<open>u = Some i\<close> Pair show ?thesis by (simp add: open_camera_def)
    qed
  qed
qed

lemma start_camera_serial_failure:
  assumes "serial_port_combo st \<noteq> ''None''" and "\<not> serial_opens e (serial_port_combo st)"
  shows "start_camera e st =
           (None, emit [SerialOpen (serial_port_combo st) False, ShowError ''Serial error''] st)"
  using assms by (simp add: start_camera_def open_serial_def Let_def)

lemma start_camera_trace_after_serial:
  assumes "open_serial e st = (True, st1)"
  shows "\<exists>es. trace (snd (start_camera e st)) = trace st1 @ es"
proof -
  obtain x u st2 where ci: "choose_index e st1 = (x, u, st2)"
    by (cases "choose_index e st1") auto
  obtain es2 where t2: "trace st2 = trace st1 @ es2"
    using choose_index_trace [of e st1] ci by auto
  show ?thesis
  proof (cases x)
    case (Some ex)
    with assms ci t2 show ?thesis by (simp add: start_camera_def)
  next
    case None
    obtain r st3 where oc: "open_camera e u st2 = (r, st3)"
      by (cases "open_camera e u st2") auto
    obtain es3 where t3: "trace st3 = trace st2 @ es3"
      using open_camera_trace [of e u st2] oc by auto
    show ?thesis
    proof (cases r)
      case None
      with assms ci \<open>x = None\<close> oc t2 t3 show ?thesis by (simp add: start_camera_def)
    next
      case (Some cap)
      with assms ci \<open>x = None\<close> oc t2 t3 show ?thesis
        by (simp add: start_camera_def Let_def load_existing_barcodes_keeps)
    qed
  qed
qed

lemma load_existing_barcodes_text_cells:
  assumes "files st (path_join3 (save_location st) order ''barcode_log.csv'') = Some content"
    and "read_csv e content =
           Inr \<lparr>columns = [''Timestamp'', ''SKU''],
                rows = map (\<lambda>r. [PyStr (fst r), PyStr (snd r)]) recs\<rparr>"
  shows "barcode_set (load_existing_barcodes e order st) = snd ` set recs
    \<and> sku_table (load_existing_barcodes e order st) = map (\<lambda>r. (PyStr (fst r), PyStr (snd r))) recs"
proof -
  have z: "zip (map (\<lambda>r. PyStr (fst r)) recs) (map (\<lambda>r. PyStr (snd r)) recs)
             = map (\<lambda>r. (PyStr (fst r), PyStr (snd r))) recs"
    by (induction recs) simp_all
  show ?thesis
    using assms
    by (auto simp add: load_existing_barcodes_def Let_def df_column_def cell_at_def z
        comp_def image_iff)
qed

lemma numeric_env_fields:
  "camera_read numeric_env = Some (Frame 1)"
  "makedirs_ok numeric_env"
  "imwrite_ok numeric_env"
  "log_write numeric_env = LogOk"
  "now_compact numeric_env = ''20240101-120000''"
  "cwd numeric_env = ''/home/op''"
  "tick_texts numeric_env = [''007'']"
  "read_csv numeric_env s = Inr \<lparr>columns = [''Timestamp'', ''SKU''],
                                  rows = [[PyStr ''20240101-120000'', PyInt 7]]\<rparr>"
  by (simp_all add: numeric_env_def quiet_env_def tick_texts_def strip_def isspace_def
      whitespace_chars_def)

lemma extract_sku_007: "extract_sku ''007'' = ''007''"
  by (simp add: extract_sku_def py_split_def py_split_on_def isspace_def whitespace_chars_def)

lemma image_path_007:
  "image_path numeric_env running_app ''007'' = ''/data/ORD7/007_20240101-120000.jpg''"
  by (simp add: image_path_def order_folder_def location_def running_app_fields
      numeric_env_fields path_join_def image_name_def)

lemma notices_simps [simp]:
  "notices [] = []"
  "notices (ev # tr) = notice_text ev @ notices tr"
  "notices (a @ b) = notices a @ notices b"
  by (simp_all add: notices_def)

lemma small_steps_notices [simp]:
  "notices (trace (choose_folder e st)) =
     notices (trace st)
     @ (if save_location st = [] then [''No folder selected - using '' @ cwd e] else [])"
  "notices (trace (write_image e p fr st)) = notices (trace st)"
  "notices (trace (append_log e p l st)) = notices (trace st)"
  by (simp_all add: choose_folder_def write_image_def append_log_def Let_def
      split: log_outcome.splits)

lemma capture_image_notices:
  "notices (trace (snd (capture_image e fr sku st))) =
     notices (trace st)
     @ (if save_location st = [] then [''No folder selected - using '' @ cwd e] else [])"
  by (simp add: capture_image_def Let_def)

section \<open>Claims\<close>

text \<open>
  C1. For every payload text, \<open>extract_sku\<close> computes the rule of the specification:
  trim, cut at the first whitespace run, keep the first token, cut it at the first
  \<open>-\<close>; when there is no token the raw text is returned unchanged. In particular
  \<open>SKU-1234 extra\<close> gives \<open>SKU\<close>, \<open>plainsku\<close> surrounded by blanks gives
  \<open>plainsku\<close>, and a text without \<open>-\<close> and without whitespace is returned as it is.
\<close>

theorem extract_sku_follows_spec:
  "(\<forall>s. extract_sku s = normalize_spec s)
   \<and> extract_sku ''SKU-1234 extra'' = ''SKU''
   \<and> extract_sku ''  plainsku  '' = ''plainsku''
   \<and> (\<forall>s. (\<forall>c \<in> set s. \<not> isspace c \<and> c \<noteq> CHR ''-'') \<longrightarrow> extract_sku s = s)
   \<and> (\<forall>s. py_split s = [] \<longrightarrow> extract_sku s = s)"
proof (intro conjI allI impI)
  fix s show "extract_sku s = normalize_spec s"
    by (rule extract_sku_eq_normalize_spec)
next
  show "extract_sku ''SKU-1234 extra'' = ''SKU''"
    by (simp add: extract_sku_def py_split_def py_split_on_def isspace_def whitespace_chars_def)
next
  show "extract_sku ''  plainsku  '' = ''plainsku''"
    by (simp add: extract_sku_def py_split_def py_split_on_def isspace_def whitespace_chars_def)
next
  fix s assume "\<forall>c \<in> set s. \<not> isspace c \<and> c \<noteq> CHR ''-''"
  then show "extract_sku s = s" by (rule extract_sku_plain)
next
  fix s assume "py_split s = []"
  then show "extract_sku s = s" by (simp add: extract_sku_def)
qed

theorem extract_sku_follows_spec_witness:
  "extract_sku ''EAN13'' = ''EAN13'' \<and> extract_sku ''   '' = ''   ''
   \<and> extract_sku ''AB-12-34 x-y'' = normalize_spec ''AB-12-34 x-y''"
proof -
  have a: "\<forall>c \<in> set ''EAN13''. \<not> isspace c \<and> c \<noteq> CHR ''-''"
    by (simp add: isspace_def whitespace_chars_def)
  have b: "py_split ''   '' = []"
    by (simp add: py_split_def isspace_def whitespace_chars_def)
  from extract_sku_follows_spec a b show ?thesis by blast
qed




text \<open>
  C9, as stated, fails in one word: the fallback to the current directory is not silent.
  \<open>capture_image\<close> tells the user in an information dialog which folder it took. From
  the state after \<open>__init__\<close>, one call shows the dialog.
\<close>

theorem capture_image_fallback_notice_counterexample:
  "notices (trace idle_app) = []
   \<and> notices (trace (snd (capture_image quiet_env (Frame 1) ''A'' idle_app))) =
       [''No folder selected - using /home/op'']"
  by (simp add: capture_image_notices idle_app_def quiet_env_def)

text \<open>
  C9, amended. With no save folder selected, \<open>capture_image\<close> does not fail and does not
  skip the write (as long as the folder can be created and the writes succeed): it
  takes the current directory as save folder, shows one information dialog that names
  it, writes the image and the log record below it, and keeps it, so that every later
  call persists below that same directory and shows no further dialog.
\<close>

theorem capture_image_falls_back_to_cwd_with_notice:
  assumes "save_location st = []" and "makedirs_ok e" and "imwrite_ok e"
    and "log_write e = LogOk"
  shows "fst (capture_image e fr sku st) = None
    \<and> save_location (snd (capture_image e fr sku st)) = cwd e
    \<and> notices (trace (snd (capture_image e fr sku st))) =
        notices (trace st) @ [''No folder selected - using '' @ cwd e]
    \<and> images (snd (capture_image e fr sku st)) =
        images st @ [(path_join (path_join (cwd e) (order_number st))
                        (image_name sku (now_compact e)), fr)]
    \<and> files (snd (capture_image e fr sku st))
          (path_join (path_join (cwd e) (order_number st)) ''barcode_log.csv'') =
        Some ((case files st (path_join (path_join (cwd e) (order_number st)) ''barcode_log.csv'')
               of None \<Rightarrow> log_header | Some old \<Rightarrow> old) @ log_line (now_compact e) sku)
    \<and> (cwd e \<noteq> [] \<longrightarrow>
         (\<forall>e' fr' sku'.
            save_location (snd (capture_image e' fr' sku' (snd (capture_image e fr sku st)))) = cwd e
            \<and> notices (trace (snd (capture_image e' fr' sku' (snd (capture_image e fr sku st)))))
                = notices (trace (snd (capture_image e fr sku st)))
            \<and> (makedirs_ok e' \<and> imwrite_ok e' \<longrightarrow>
                 images (snd (capture_image e' fr' sku' (snd (capture_image e fr sku st)))) =
                   images (snd (capture_image e fr sku st))
                   @ [(path_join (path_join (cwd e) (order_number st))
                         (image_name sku' (now_compact e')), fr')])))"
proof -
  let ?st1 = "snd (capture_image e fr sku st)"
  have loc: "location e st = cwd e"
    using assms(1) by (simp add: location_def)
  have a: "fst (capture_image e fr sku st) = None"
    using assms(2) by (simp add: capture_image_fst)
  have b: "save_location ?st1 = cwd e"
    using loc by (simp add: capture_image_keeps)
  have n: "notices (trace ?st1) = notices (trace st) @ [''No folder selected - using '' @ cwd e]"
    using assms(1) by (simp add: capture_image_notices)
  have c: "images ?st1 =
        images st @ [(path_join (path_join (cwd e) (order_number st))
                        (image_name sku (now_compact e)), fr)]"
    using assms(2,3) loc by (simp add: capture_image_images image_path_def order_folder_def)
  have d: "files ?st1 (path_join (path_join (cwd e) (order_number st)) ''barcode_log.csv'') =
        Some ((case files st (path_join (path_join (cwd e) (order_number st)) ''barcode_log.csv'')
               of None \<Rightarrow> log_header | Some old \<Rightarrow> old) @ log_line (now_compact e) sku)"
    using capture_image_appends_one_line [OF assms(2,4), of fr sku st] loc
    by (simp add: log_path_of_def order_folder_def)
  have later: "save_location (snd (capture_image e' fr' sku' ?st1)) = cwd e
      \<and> notices (trace (snd (capture_image e' fr' sku' ?st1))) = notices (trace ?st1)
      \<and> (makedirs_ok e' \<and> imwrite_ok e' \<longrightarrow>
           images (snd (capture_image e' fr' sku' ?st1)) =
             images ?st1 @ [(path_join (path_join (cwd e) (order_number st))
                               (image_name sku' (now_compact e')), fr')])"
    if ne: "cwd e \<noteq> []" for e' fr' sku'
  proof -
    have l: "location e' ?st1 = cwd e"
      using b ne by (simp add: location_def)
    have o: "order_number ?st1 = order_number st"
      by (rule order_number_cong) (simp add: capture_image_keeps)
    have q: "notices (trace (snd (capture_image e' fr' sku' ?st1))) = notices (trace ?st1)"
      using b ne by (simp add: capture_image_notices)
    show ?thesis
      using l o q by (simp add: capture_image_keeps capture_image_images image_path_def
          order_folder_def)
  qed
  from a b n c d later show ?thesis by blast
qed

theorem capture_image_falls_back_to_cwd_with_notice_witness:
  "save_location (snd (capture_image quiet_env (Frame 1) ''A'' idle_app)) = ''/home/op''
   \<and> notices (trace (snd (capture_image quiet_env (Frame 1) ''A'' idle_app))) =
        [''No folder selected - using /home/op'']
   \<and> notices (trace (snd (capture_image quiet_env (Frame 1) ''B''
                            (snd (capture_image quiet_env (Frame 1) ''A'' idle_app))))) =
        [''No folder selected - using /home/op'']
   \<and> images (snd (capture_image quiet_env (Frame 1) ''A'' idle_app)) =
        [(''/home/op/NoOrder/A_20240101-120000.jpg'', Frame 1)]
   \<and> files (snd (capture_image quiet_env (Frame 1) ''A'' idle_app))
        ''/home/op/NoOrder/barcode_log.csv'' =
        Some (''Timestamp,SKU'' @ [CHR 0x0A] @ ''20240101-120000,A'' @ [CHR 0x0A])"
proof -
  have h: "save_location idle_app = []" "makedirs_ok quiet_env" "imwrite_ok quiet_env"
    "log_write quiet_env = LogOk"
    by (simp_all add: idle_app_def quiet_env_def)
  have p: "cwd quiet_env = ''/home/op''"
    by (simp add: quiet_env_def)
  have q: "path_join (path_join ''/home/op'' (order_number idle_app)) ''barcode_log.csv''
             = ''/home/op/NoOrder/barcode_log.csv''"
    "path_join (path_join ''/home/op'' (order_number idle_app))
        (image_name ''A'' (now_compact quiet_env)) = ''/home/op/NoOrder/A_20240101-120000.jpg''"
    by (simp_all add: path_join_def order_number_def strip_def idle_app_def quiet_env_def
        image_name_def)
  have f: "files idle_app ''/home/op/NoOrder/barcode_log.csv'' = None" "images idle_app = []"
    "notices (trace idle_app) = []"
    by (simp_all add: idle_app_def)
  have nc: "now_compact quiet_env = ''20240101-120000''"
    by (simp add: quiet_env_def)
  have ne: "''/home/op'' \<noteq> []"
    by simp
  note t = capture_image_falls_back_to_cwd_with_notice [OF h, of "Frame 1" "''A''"]
  from t have 1: "save_location (snd (capture_image quiet_env (Frame 1) ''A'' idle_app))
                    = ''/home/op''"
    unfolding p by blast
  from t have 2: "notices (trace (snd (capture_image quiet_env (Frame 1) ''A'' idle_app))) =
        [''No folder selected - using /home/op'']"
    unfolding p f by simp
  from t ne have "notices (trace (snd (capture_image quiet_env (Frame 1) ''B''
                            (snd (capture_image quiet_env (Frame 1) ''A'' idle_app))))) =
        notices (trace (snd (capture_image quiet_env (Frame 1) ''A'' idle_app)))"
    unfolding p by blast
  with 2 have 3: "notices (trace (snd (capture_image quiet_env (Frame 1) ''B''
                            (snd (capture_image quiet_env (Frame 1) ''A'' idle_app))))) =
        [''No folder selected - using /home/op'']"
    by simp
  from t have 4: "images (snd (capture_image quiet_env (Frame 1) ''A'' idle_app)) =
        [(''/home/op/NoOrder/A_20240101-120000.jpg'', Frame 1)]"
    unfolding p q f by simp
  from t have 5: "files (snd (capture_image quiet_env (Frame 1) ''A'' idle_app))
        ''/home/op/NoOrder/barcode_log.csv'' =
        Some (''Timestamp,SKU'' @ [CHR 0x0A] @ ''20240101-120000,A'' @ [CHR 0x0A])"
    unfolding p q f by (simp add: nc log_header_def log_line_def)
  from 1 2 3 4 5 show ?thesis by blast
qed

text \<open>
  C7, as the specification states it, fails for \<open>capture_snapshot\<close>: with no capture
  held the call returns normally, raises nothing and shows no error; the state,
  including the record of error dialogs, is what it was.
\<close>

theorem capture_snapshot_idle_counterexample:
  "capture_snapshot quiet_env idle_app = (None, idle_app) \<and> trace idle_app = []"
  by (simp add: capture_snapshot_def idle_app_def)

text \<open>
  C7, amended. With no capture held \<open>capture_snapshot\<close> does nothing at all: no frame
  is read, nothing is written, no error is raised or shown. With a capture held and a
  frame read, one image and one log record are written under the identifier
  \<open>manual\<close>, whatever the set of scanned identifiers holds, and the set is not changed.
  When the read fails an error is shown and nothing is written.
\<close>

theorem capture_snapshot_silent_unless_running:
  "(capture st = None \<longrightarrow> capture_snapshot e st = (None, st))
   \<and> (capture st \<noteq> None \<and> camera_read e = None \<longrightarrow>
        fst (capture_snapshot e st) = None
        \<and> images (snd (capture_snapshot e st)) = images st
        \<and> files (snd (capture_snapshot e st)) = files st
        \<and> barcode_set (snd (capture_snapshot e st)) = barcode_set st
        \<and> trace (snd (capture_snapshot e st)) =
            trace st @ [CamRead,
              ShowError ''Failed to capture snapshot (camera not returning frames).''])
   \<and> (capture st \<noteq> None \<and> camera_read e = Some fr \<and> makedirs_ok e \<and> imwrite_ok e
        \<and> log_write e = LogOk \<longrightarrow>
        fst (capture_snapshot e st) = None
        \<and> images (snd (capture_snapshot e st)) = images st @ [(image_path e st ''manual'', fr)]
        \<and> files (snd (capture_snapshot e st)) =
            log_appended (files st) (log_path_of e st) [log_line (now_compact e) ''manual'']
        \<and> barcode_set (snd (capture_snapshot e st)) = barcode_set st)"
  by (auto simp add: capture_snapshot_def capture_image_fst capture_image_keeps
      capture_image_images capture_image_files)

theorem capture_snapshot_silent_unless_running_witness:
  "capture_snapshot quiet_env (idle_app\<lparr>barcode_set := {''manual''}\<rparr>)
     = (None, idle_app\<lparr>barcode_set := {''manual''}\<rparr>)
   \<and> images (snd (capture_snapshot quiet_env (running_app\<lparr>barcode_set := {''manual''}\<rparr>))) =
       [(''/data/ORD7/manual_20240101-120000.jpg'', Frame 1)]
   \<and> barcode_set (snd (capture_snapshot quiet_env (running_app\<lparr>barcode_set := {''manual''}\<rparr>)))
       = {''manual''}"
proof -
  have i: "capture (idle_app\<lparr>barcode_set := {''manual''}\<rparr>) = None"
    by (simp add: idle_app_def)
  have r: "capture (running_app\<lparr>barcode_set := {''manual''}\<rparr>) \<noteq> None
      \<and> camera_read quiet_env = Some (Frame 1) \<and> makedirs_ok quiet_env \<and> imwrite_ok quiet_env
      \<and> log_write quiet_env = LogOk"
    by (simp add: running_app_def idle_app_def quiet_env_def)
  have p: "image_path quiet_env (running_app\<lparr>barcode_set := {''manual''}\<rparr>) ''manual''
             = ''/data/ORD7/manual_20240101-120000.jpg''"
    by (simp add: image_path_def order_folder_def location_def order_number_def strip_def
        path_join_def image_name_def running_app_def idle_app_def quiet_env_def isspace_def
        whitespace_chars_def)
  have im: "images (running_app\<lparr>barcode_set := {''manual''}\<rparr>) = []"
    "barcode_set (running_app\<lparr>barcode_set := {''manual''}\<rparr>) = {''manual''}"
    by (simp_all add: running_app_def idle_app_def)
  from capture_snapshot_silent_unless_running
         [of "idle_app\<lparr>barcode_set := {''manual''}\<rparr>" quiet_env "Frame 1"] i
       capture_snapshot_silent_unless_running
         [of "running_app\<lparr>barcode_set := {''manual''}\<rparr>" quiet_env "Frame 1"] r
  show ?thesis
    unfolding p by (simp add: im)
qed

text \<open>
  C2. In a tick of a running session whose frame read, folder creation and writes
  succeed, the identifiers persisted are exactly the decoded identifiers that the set
  of scanned identifiers did not hold, each once and in decoding order: each gets its
  image and its log record, the success tone when tones are enabled, and one write to
  the serial port when a port is open; afterwards the set holds every decoded
  identifier. An identifier already in the set causes no write and no side effect, so
  a following tick that decodes the same symbols reads the frame and changes nothing
  else.
\<close>

theorem update_frame_persists_new_identifiers_once:
  assumes "capture st = Some cam" and "camera_read e = Some fr" and "makedirs_ok e"
    and "imwrite_ok e" and "log_write e = LogOk"
  shows "fst (update_frame e st) = None
    \<and> fst ` set (tick_scans e st) = extract_sku ` set (tick_texts e) - barcode_set st
    \<and> distinct (map fst (tick_scans e st))
    \<and> barcode_set (snd (update_frame e st)) = barcode_set st \<union> extract_sku ` set (tick_texts e)
    \<and> images (snd (update_frame e st)) =
        images st @ map (\<lambda>kd. (image_path e st (fst kd), fr)) (tick_scans e st)
    \<and> files (snd (update_frame e st)) =
        log_appended (files st) (log_path_of e st)
          (map (\<lambda>kd. log_line (now_compact e) (fst kd)) (tick_scans e st))
    \<and> success_beeps (trace (snd (update_frame e st))) =
        success_beeps (trace st)
        + (if beep_setting st \<and> beep_checkbox st then length (tick_scans e st) else 0)
    \<and> serial_written (trace (snd (update_frame e st))) =
        serial_written (trace st)
        @ (case serial_port st of
             None \<Rightarrow> []
           | Some port \<Rightarrow> map (\<lambda>kd. encode (snd kd @ [CHR 0x0A])) (tick_scans e st))
    \<and> (\<forall>e' fr'. camera_read e' = Some fr' \<and> tick_texts e' = tick_texts e \<longrightarrow>
          update_frame e' (snd (update_frame e st))
            = (None, emit [CamRead] (snd (update_frame e st))))"
proof -
  let ?ks = "tick_scans e st"
  let ?st0 = "emit [CamRead] st"
  have u: "update_frame e st = (None, record_scans e fr ?ks ?st0)"
    using assms(1-3) by (rule update_frame_tick)
  have ids: "barcode_set (record_scans e fr ?ks ?st0)
               = barcode_set st \<union> extract_sku ` set (tick_texts e)"
    using new_scans_ids [of "barcode_set st" "tick_texts e"]
    by (simp add: record_scans_set tick_scans_def)
  have im: "images (record_scans e fr ?ks ?st0) =
        images st @ map (\<lambda>kd. (image_path e st (fst kd), fr)) ?ks"
    using assms(3,4)
    by (simp add: record_scans_images tick_scans_def
        new_scans_map_fst [of "\<lambda>k. (image_path e st k, fr)"])
  have fl: "files (record_scans e fr ?ks ?st0) =
        log_appended (files st) (log_path_of e st)
          (map (\<lambda>kd. log_line (now_compact e) (fst kd)) ?ks)"
    using assms(3,5)
    by (simp add: record_scans_files tick_scans_def
        new_scans_map_fst [of "\<lambda>k. log_line (now_compact e) k"])
  have bp: "success_beeps (trace (record_scans e fr ?ks ?st0)) =
        success_beeps (trace st) + (if beep_setting st \<and> beep_checkbox st then length ?ks else 0)"
    using assms(3) beep_setting_cong [of ?st0 st]
    by (simp add: record_scans_beeps)
  have sw: "serial_written (trace (record_scans e fr ?ks ?st0)) =
        serial_written (trace st)
        @ (case serial_port st of
             None \<Rightarrow> []
           | Some port \<Rightarrow> map (\<lambda>kd. encode (snd kd @ [CHR 0x0A])) ?ks)"
    by (simp add: record_scans_written)
  have again: "update_frame e' (record_scans e fr ?ks ?st0)
                 = (None, emit [CamRead] (record_scans e fr ?ks ?st0))"
    if "camera_read e' = Some fr'" and "tick_texts e' = tick_texts e" for e' fr'
  proof (rule update_frame_nothing_new)
    show "capture (record_scans e fr ?ks ?st0) = Some cam"
      using assms(1) by (simp add: record_scans_keeps)
    show "camera_read e' = Some fr'" by fact
    show "extract_sku ` set (tick_texts e') \<subseteq> barcode_set (record_scans e fr ?ks ?st0)"
      using that(2) ids by simp
  qed
  show ?thesis
    unfolding u using ids im fl bp sw again
    by (simp add: tick_scans_def new_scans_keys new_scans_distinct)
qed

theorem update_frame_persists_new_identifiers_once_witness:
  "barcode_set (snd (update_frame two_codes_env running_app)) = {''A'', ''B''}
   \<and> images (snd (update_frame two_codes_env running_app)) =
       [(''/data/ORD7/A_20240101-120000.jpg'', Frame 1),
        (''/data/ORD7/B_20240101-120000.jpg'', Frame 1)]
   \<and> files (snd (update_frame two_codes_env running_app)) ''/data/ORD7/barcode_log.csv'' =
       Some (''Timestamp,SKU'' @ [CHR 0x0A] @ ''20240101-120000,A'' @ [CHR 0x0A]
             @ ''20240101-120000,B'' @ [CHR 0x0A])
   \<and> update_frame two_codes_env (snd (update_frame two_codes_env running_app)) =
       (None, emit [CamRead] (snd (update_frame two_codes_env running_app)))"
proof -
  have ks: "tick_scans two_codes_env running_app = [(''A'', ''A''), (''B'', ''B'')]"
    by (simp add: tick_scans_def two_codes_env_fields running_app_fields extract_sku_A_B)
  note t = update_frame_persists_new_identifiers_once
      [OF running_app_fields(1) two_codes_env_fields(1-4)]
  from t have 1: "barcode_set (snd (update_frame two_codes_env running_app)) = {''A'', ''B''}"
    by (auto simp add: two_codes_env_fields running_app_fields extract_sku_A_B)
  from t have 2: "images (snd (update_frame two_codes_env running_app)) =
       [(''/data/ORD7/A_20240101-120000.jpg'', Frame 1),
        (''/data/ORD7/B_20240101-120000.jpg'', Frame 1)]"
    by (simp add: ks running_app_paths running_app_fields two_codes_env_fields)
  from t have "files (snd (update_frame two_codes_env running_app)) =
       log_appended Map.empty ''/data/ORD7/barcode_log.csv''
         [log_line ''20240101-120000'' ''A'', log_line ''20240101-120000'' ''B'']"
    by (simp add: ks running_app_paths running_app_fields two_codes_env_fields)
  then have 3: "files (snd (update_frame two_codes_env running_app)) ''/data/ORD7/barcode_log.csv'' =
       Some (''Timestamp,SKU'' @ [CHR 0x0A] @ ''20240101-120000,A'' @ [CHR 0x0A]
             @ ''20240101-120000,B'' @ [CHR 0x0A])"
    by (simp add: log_appended_def log_text_def log_header_def log_line_def)
  from t have 4: "update_frame two_codes_env (snd (update_frame two_codes_env running_app)) =
       (None, emit [CamRead] (snd (update_frame two_codes_env running_app)))"
    using two_codes_env_fields(1) by blast
  from 1 2 3 4 show ?thesis by blast
qed

text \<open>
  C8. When the image write or the log append of a new identifier fails, the tick goes
  on: \<open>update_frame\<close> raises nothing and handles every remaining symbol. Whatever the
  outcome of the two writes, each decoded identifier is in the set afterwards; an
  image that was written stays even when the log append fails; and a following tick
  that decodes the same symbols reads the frame and does nothing else, in whatever
  surroundings, so the failed persist is never tried again. (The creation of the order
  folder is assumed to succeed: \<open>os.makedirs\<close> is outside every \<open>try\<close>.)
\<close>

theorem failed_persist_is_not_retried:
  assumes "capture st = Some cam" and "camera_read e = Some fr" and "makedirs_ok e"
  shows "fst (update_frame e st) = None
    \<and> barcode_set (snd (update_frame e st)) = barcode_set st \<union> extract_sku ` set (tick_texts e)
    \<and> images (snd (update_frame e st)) =
        images st @ (if imwrite_ok e
                     then map (\<lambda>kd. (image_path e st (fst kd), fr)) (tick_scans e st) else [])
    \<and> (log_write e = LogOpenFails \<longrightarrow> files (snd (update_frame e st)) = files st)
    \<and> (\<forall>e' fr'. camera_read e' = Some fr' \<and> tick_texts e' = tick_texts e \<longrightarrow>
          update_frame e' (snd (update_frame e st))
            = (None, emit [CamRead] (snd (update_frame e st))))"
proof -
  let ?ks = "tick_scans e st"
  let ?st0 = "emit [CamRead] st"
  have u: "update_frame e st = (None, record_scans e fr ?ks ?st0)"
    using assms by (rule update_frame_tick)
  have ids: "barcode_set (record_scans e fr ?ks ?st0)
               = barcode_set st \<union> extract_sku ` set (tick_texts e)"
    using new_scans_ids [of "barcode_set st" "tick_texts e"]
    by (simp add: record_scans_set tick_scans_def)
  have im: "images (record_scans e fr ?ks ?st0) =
        images st @ (if imwrite_ok e
                     then map (\<lambda>kd. (image_path e st (fst kd), fr)) ?ks else [])"
    using assms(3)
    by (simp add: record_scans_images tick_scans_def
        new_scans_map_fst [of "\<lambda>k. (image_path e st k, fr)"])
  have fl: "files (record_scans e fr ?ks ?st0) = files st" if "log_write e = LogOpenFails"
    using that by (simp add: record_scans_files_open_fails)
  have again: "update_frame e' (record_scans e fr ?ks ?st0)
                 = (None, emit [CamRead] (record_scans e fr ?ks ?st0))"
    if "camera_read e' = Some fr'" and "tick_texts e' = tick_texts e" for e' fr'
  proof (rule update_frame_nothing_new)
    show "capture (record_scans e fr ?ks ?st0) = Some cam"
      using assms(1) by (simp add: record_scans_keeps)
    show "camera_read e' = Some fr'" by fact
    show "extract_sku ` set (tick_texts e') \<subseteq> barcode_set (record_scans e fr ?ks ?st0)"
      using that(2) ids by simp
  qed
  show ?thesis
    unfolding u using ids im fl again by simp
qed

theorem failed_persist_is_not_retried_witness:
  "fst (update_frame log_fails_env running_app) = None
   \<and> barcode_set (snd (update_frame log_fails_env running_app)) = {''A'', ''B''}
   \<and> images (snd (update_frame log_fails_env running_app)) =
       [(''/data/ORD7/A_20240101-120000.jpg'', Frame 1),
        (''/data/ORD7/B_20240101-120000.jpg'', Frame 1)]
   \<and> files (snd (update_frame log_fails_env running_app)) ''/data/ORD7/barcode_log.csv'' = None
   \<and> update_frame two_codes_env (snd (update_frame log_fails_env running_app)) =
       (None, emit [CamRead] (snd (update_frame log_fails_env running_app)))"
proof -
  have ks: "tick_scans log_fails_env running_app = [(''A'', ''A''), (''B'', ''B'')]"
    by (simp add: tick_scans_def log_fails_env_fields running_app_fields extract_sku_A_B)
  have ip: "image_path log_fails_env running_app k = image_path two_codes_env running_app k" for k
    by (rule image_path_env) (simp_all add: log_fails_env_def)
  note t = failed_persist_is_not_retried
      [OF running_app_fields(1) log_fails_env_fields(1,2)]
  from t have 0: "fst (update_frame log_fails_env running_app) = None"
    by blast
  from t have 1: "barcode_set (snd (update_frame log_fails_env running_app)) = {''A'', ''B''}"
    by (auto simp add: log_fails_env_fields running_app_fields extract_sku_A_B)
  from t have 2: "images (snd (update_frame log_fails_env running_app)) =
       [(''/data/ORD7/A_20240101-120000.jpg'', Frame 1),
        (''/data/ORD7/B_20240101-120000.jpg'', Frame 1)]"
    by (simp add: ks ip running_app_paths running_app_fields log_fails_env_fields)
  from t have 3: "files (snd (update_frame log_fails_env running_app))
                    ''/data/ORD7/barcode_log.csv'' = None"
    by (simp add: log_fails_env_fields running_app_fields)
  from t have 4: "update_frame two_codes_env (snd (update_frame log_fails_env running_app)) =
       (None, emit [CamRead] (snd (update_frame log_fails_env running_app)))"
    using two_codes_env_fields(1,6) log_fails_env_fields(6) by metis
  from 0 1 2 3 4 show ?thesis by blast
qed

text \<open>
  C6, as the specification states it, fails: the serial port receives the decoded text,
  not the identifier. For the payload \<open>SKU-1234 extra\<close> the identifier is \<open>SKU\<close>, and
  the bytes written are those of \<open>SKU-1234 extra\<close> and a newline.
\<close>

theorem serial_forward_counterexample:
  "serial_written (trace (snd (update_frame sku_env running_app))) =
     [''SKU-1234 extra'' @ [CHR 0x0A]]
   \<and> encode (extract_sku ''SKU-1234 extra'' @ [CHR 0x0A]) = ''SKU'' @ [CHR 0x0A]
   \<and> serial_written (trace (snd (update_frame sku_env running_app))) \<noteq>
     [encode (extract_sku ''SKU-1234 extra'' @ [CHR 0x0A])]"
proof -
  have ks: "tick_scans sku_env running_app = [(''SKU'', ''SKU-1234 extra'')]"
    by (simp add: tick_scans_def sku_env_fields running_app_fields extract_sku_example)
  have "serial_written (trace (snd (update_frame sku_env running_app))) =
          [encode (''SKU-1234 extra'' @ [CHR 0x0A])]"
    using update_frame_written [OF running_app_fields(1) sku_env_fields(1,2)]
    by (simp add: ks running_app_fields)
  then show ?thesis
    by (simp add: encode_def encode_char_def extract_sku_example)
qed

text \<open>
  C6, amended. For every newly recorded scan while a serial port is open, the bytes
  written to the port are the UTF-8 encoding of the decoded payload text, trimmed of
  surrounding whitespace, followed by a newline; one write per new scan, in decoding
  order. They are the identifier and a newline exactly when identifier and trimmed text
  coincide, as for a text with no whitespace and no \<open>-\<close>.
\<close>

theorem update_frame_forwards_trimmed_payload:
  assumes "capture st = Some cam" and "camera_read e = Some fr" and "makedirs_ok e"
    and "serial_port st = Some port"
  shows "serial_written (trace (snd (update_frame e st))) =
           serial_written (trace st)
           @ map (\<lambda>kd. encode (snd kd @ [CHR 0x0A])) (tick_scans e st)
    \<and> snd ` set (tick_scans e st) \<subseteq> set (tick_texts e)
    \<and> (\<forall>kd \<in> set (tick_scans e st).
          fst kd = extract_sku (snd kd)
          \<and> ((\<forall>c \<in> set (snd kd). \<not> isspace c \<and> c \<noteq> CHR ''-'') \<longrightarrow> snd kd = fst kd))"
proof -
  have a: "serial_written (trace (snd (update_frame e st))) =
           serial_written (trace st)
           @ map (\<lambda>kd. encode (snd kd @ [CHR 0x0A])) (tick_scans e st)"
    using update_frame_written [OF assms(1-3)] assms(4) by simp
  have b: "snd ` set (tick_scans e st) \<subseteq> set (tick_texts e)"
    unfolding tick_scans_def by (rule new_scans_snd)
  have c: "fst kd = extract_sku (snd kd)
          \<and> ((\<forall>c \<in> set (snd kd). \<not> isspace c \<and> c \<noteq> CHR ''-'') \<longrightarrow> snd kd = fst kd)"
    if "kd \<in> set (tick_scans e st)" for kd
  proof -
    from that have "(fst kd, snd kd) \<in> set (new_scans (barcode_set st) (tick_texts e))"
      unfolding tick_scans_def by simp
    then have k: "fst kd = extract_sku (snd kd)"
      by (rule new_scans_fst)
    then show ?thesis by (simp add: extract_sku_plain)
  qed
  from a b c show ?thesis by blast
qed

theorem update_frame_forwards_trimmed_payload_witness:
  "serial_written (trace (snd (update_frame sku_env running_app))) =
     [''SKU-1234 extra'' @ [CHR 0x0A]]
   \<and> serial_written (trace (snd (update_frame two_codes_env running_app))) =
     [''A'' @ [CHR 0x0A], ''B'' @ [CHR 0x0A]]"
proof -
  have ks: "tick_scans sku_env running_app = [(''SKU'', ''SKU-1234 extra'')]"
    by (simp add: tick_scans_def sku_env_fields running_app_fields extract_sku_example)
  have ks2: "tick_scans two_codes_env running_app = [(''A'', ''A''), (''B'', ''B'')]"
    by (simp add: tick_scans_def two_codes_env_fields running_app_fields extract_sku_A_B)
  from update_frame_forwards_trimmed_payload
         [OF running_app_fields(1) sku_env_fields(1,2) running_app_fields(6)]
  have 1: "serial_written (trace (snd (update_frame sku_env running_app))) =
     [''SKU-1234 extra'' @ [CHR 0x0A]]"
    by (simp add: ks running_app_fields encode_def encode_char_def)
  from update_frame_forwards_trimmed_payload
         [OF running_app_fields(1) two_codes_env_fields(1,2) running_app_fields(6)]
  have 2: "serial_written (trace (snd (update_frame two_codes_env running_app))) =
     [''A'' @ [CHR 0x0A], ''B'' @ [CHR 0x0A]]"
    by (simp add: ks2 running_app_fields encode_def encode_char_def)
  from 1 2 show ?thesis by blast
qed

text \<open>
  C3. When a serial port is selected, \<open>start_camera\<close> opens it before any camera is
  probed or opened: the first call to the outside is the opening of the port. When the
  port does not open, \<open>start_camera\<close> shows the error and returns at once: no camera is
  probed or opened, and the capture, the serial handle, the timer and the set of
  scanned identifiers are what they were.
\<close>

theorem start_camera_opens_serial_first:
  assumes "serial_port_combo st \<noteq> ''None''"
  shows "(\<exists>ok rest. trace (snd (start_camera e st)) =
                      trace st @ SerialOpen (serial_port_combo st) ok # rest)
    \<and> (\<not> serial_opens e (serial_port_combo st) \<longrightarrow>
         fst (start_camera e st) = None
         \<and> trace (snd (start_camera e st)) =
             trace st @ [SerialOpen (serial_port_combo st) False, ShowError ''Serial error'']
         \<and> capture (snd (start_camera e st)) = capture st
         \<and> serial_port (snd (start_camera e st)) = serial_port st
         \<and> timer_active (snd (start_camera e st)) = timer_active st
         \<and> barcode_set (snd (start_camera e st)) = barcode_set st)"
proof (cases "serial_opens e (serial_port_combo st)")
  case False
  with assms show ?thesis by (auto simp add: start_camera_serial_failure)
next
  case True
  let ?st1 = "(emit [SerialOpen (serial_port_combo st) True] st)
                \<lparr>serial_port := Some (serial_port_combo st),
                 status_label := ''Connected to '' @ serial_port_combo st\<rparr>"
  have "open_serial e st = (True, ?st1)"
    using assms True by (simp add: open_serial_def Let_def)
  from start_camera_trace_after_serial [OF this]
  obtain es where "trace (snd (start_camera e st)) = trace ?st1 @ es" by blast
  then have "trace (snd (start_camera e st)) =
               trace st @ SerialOpen (serial_port_combo st) True # es"
    by simp
  with True show ?thesis by blast
qed

theorem start_camera_opens_serial_first_witness:
  "start_camera no_serial_env (idle_app\<lparr>serial_port_combo := ''COM9''\<rparr>) =
     (None, idle_app\<lparr>serial_port_combo := ''COM9'',
                     trace := [SerialOpen ''COM9'' False, ShowError ''Serial error'']\<rparr>)
   \<and> capture (snd (start_camera no_serial_env (idle_app\<lparr>serial_port_combo := ''COM9''\<rparr>))) = None
   \<and> trace (snd (start_camera quiet_env (idle_app\<lparr>serial_port_combo := ''COM3''\<rparr>))) =
       [SerialOpen ''COM3'' True, CamOpen 0 (Some CAP_V4L2)]"
proof -
  have a: "serial_port_combo (idle_app\<lparr>serial_port_combo := ''COM9''\<rparr>) \<noteq> ''None''"
    by simp
  have b: "\<not> serial_opens no_serial_env (serial_port_combo (idle_app\<lparr>serial_port_combo := ''COM9''\<rparr>))"
    by (simp add: no_serial_env_def)
  from start_camera_opens_serial_first [OF a, of no_serial_env] b
  have 1: "capture (snd (start_camera no_serial_env (idle_app\<lparr>serial_port_combo := ''COM9''\<rparr>)))
             = None"
    by (simp add: idle_app_def)
  have 2: "start_camera no_serial_env (idle_app\<lparr>serial_port_combo := ''COM9''\<rparr>) =
     (None, idle_app\<lparr>serial_port_combo := ''COM9'',
                     trace := [SerialOpen ''COM9'' False, ShowError ''Serial error'']\<rparr>)"
    by (simp add: start_camera_def open_serial_def Let_def no_serial_env_def quiet_env_def
        idle_app_def emit_def)
  have 3: "trace (snd (start_camera quiet_env (idle_app\<lparr>serial_port_combo := ''COM3''\<rparr>))) =
       [SerialOpen ''COM3'' True, CamOpen 0 (Some CAP_V4L2)]"
    by (simp add: start_camera_def open_serial_def choose_index_def open_camera_def
        open_camera_with_fallback_def try_open_def or_else_def get_preferred_backend_def
        isdigit_def py_int_def digit_chars_def Let_def quiet_env_def idle_app_def emit_def)
  from 1 2 3 show ?thesis by blast
qed

text \<open>
  C10. When the log of the order exists and cannot be read or parsed (\<open>read_csv\<close>
  raises, or the data frame has no \<open>SKU\<close> column), \<open>load_existing_barcodes\<close> raises
  nothing and leaves the set of scanned identifiers empty, whatever it held: the set is
  cleared before the file is read. Every symbol decoded afterwards is then new, and is
  persisted again even when the log already holds its identifier.
\<close>

theorem load_existing_barcodes_swallows_read_errors:
  assumes "files st (path_join3 (save_location st) order ''barcode_log.csv'') = Some content"
    and "read_csv e content = Inl x
         \<or> (\<exists>df. read_csv e content = Inr df \<and> ''SKU'' \<notin> set (columns df))"
  shows "load_existing_barcodes e order st = st\<lparr>barcode_set := {}\<rparr>
    \<and> (\<forall>e' fr t cur. makedirs_ok e' \<longrightarrow>
          process_barcode e' fr (Symbol (Some t)) (cur, load_existing_barcodes e order st) =
            (None, Some (strip t),
             record_scan e' fr (strip t) (load_existing_barcodes e order st)))"
proof -
  have l: "load_existing_barcodes e order st = st\<lparr>barcode_set := {}\<rparr>"
    using assms by (rule load_existing_barcodes_failed)
  have "process_barcode e' fr (Symbol (Some t)) (cur, st\<lparr>barcode_set := {}\<rparr>) =
          (None, Some (strip t), record_scan e' fr (strip t) (st\<lparr>barcode_set := {}\<rparr>))"
    if "makedirs_ok e'" for e' fr t cur
    using that by (intro process_barcode_new) simp_all
  with l show ?thesis by simp
qed

theorem load_existing_barcodes_swallows_read_errors_witness:
  "load_existing_barcodes quiet_env ''ORD7'' logged_app = logged_app\<lparr>barcode_set := {}\<rparr>
   \<and> barcode_set logged_app = {''A''}
   \<and> fst (start_camera quiet_env logged_app) = None
   \<and> barcode_set (snd (start_camera quiet_env logged_app)) = {}
   \<and> timer_active (snd (start_camera quiet_env logged_app))"
proof -
  have f: "files logged_app (path_join3 (save_location logged_app) ''ORD7'' ''barcode_log.csv'')
             = Some (log_header @ log_line ''20231231-090000'' ''A'')"
    by (simp add: logged_app_def idle_app_def path_join3_def path_join_def)
  have r: "read_csv quiet_env (log_header @ log_line ''20231231-090000'' ''A'') = Inl ParserError
         \<or> (\<exists>df. read_csv quiet_env (log_header @ log_line ''20231231-090000'' ''A'') = Inr df
                 \<and> ''SKU'' \<notin> set (columns df))"
    by (simp add: quiet_env_def)
  from load_existing_barcodes_swallows_read_errors [OF f r]
  have 1: "load_existing_barcodes quiet_env ''ORD7'' logged_app = logged_app\<lparr>barcode_set := {}\<rparr>"
    by blast
  have 2: "barcode_set logged_app = {''A''}"
    by (simp add: logged_app_def idle_app_def)
  have on: "order_number logged_app = ''ORD7''"
    by (simp add: order_number_def logged_app_def idle_app_def strip_def isspace_def
        whitespace_chars_def)
  have s: "start_camera quiet_env logged_app =
             (None, (load_existing_barcodes quiet_env ''ORD7''
                       ((emit [CamOpen 0 (Some CAP_V4L2)] (logged_app\<lparr>serial_port := None\<rparr>))
                          \<lparr>capture := Some (0, Some CAP_V4L2), camera_index := Some 0\<rparr>))
                    \<lparr>timer_active := True, status_label := started_status (Some 0)\<rparr>)"
    by (simp add: start_camera_def open_serial_def choose_index_def open_camera_def
        open_camera_with_fallback_def try_open_def or_else_def get_preferred_backend_def
        isdigit_def py_int_def digit_chars_def Let_def quiet_env_def logged_app_def idle_app_def
        order_number_def strip_def isspace_def whitespace_chars_def
        load_existing_barcodes_keeps)
  have 3: "fst (start_camera quiet_env logged_app) = None"
    unfolding s by simp
  have 4: "barcode_set (snd (start_camera quiet_env logged_app)) = {}"
    unfolding s
    by (simp add: load_existing_barcodes_def Let_def path_join3_def path_join_def
        logged_app_def idle_app_def quiet_env_def emit_def)
  have 5: "timer_active (snd (start_camera quiet_env logged_app))"
    unfolding s by simp
  from 1 2 3 4 5 show ?thesis by blast
qed

text \<open>
  C4. The append half holds (\<open>capture_image_appends_one_line\<close>,
  \<open>record_scans_files\<close>): the header is written only when the file did not exist,
  and each record adds exactly one line. The replay half fails where \<open>pd.read_csv\<close>
  reads the identifier column as numbers, as pandas does for a column whose fields are
  all decimal integers: after one record for \<open>007\<close> the replay puts \<open>7\<close> into the set
  of scanned identifiers, \<open>007\<close> is not in it, and the next tick that decodes \<open>007\<close>
  persists it again. The replay returns the records as appended when \<open>read_csv\<close>
  returns every field as text (\<open>load_existing_barcodes_text_cells\<close>).
\<close>

theorem replay_reads_numeric_identifier_as_number:
  assumes "files st (path_join3 (save_location st) order ''barcode_log.csv'')
             = Some (log_header @ log_line ts ''007'')"
    and "read_csv e (log_header @ log_line ts ''007'')
           = Inr \<lparr>columns = [''Timestamp'', ''SKU''], rows = [[PyStr ts, PyInt 7]]\<rparr>"
    and "makedirs_ok e'"
  shows "barcode_set (load_existing_barcodes e order st) = {''7''}
    \<and> ''007'' \<notin> barcode_set (load_existing_barcodes e order st)
    \<and> process_barcode e' fr (Symbol (Some ''007'')) (cur, load_existing_barcodes e order st) =
        (None, Some ''007'', record_scan e' fr ''007'' (load_existing_barcodes e order st))"
proof -
  have s: "barcode_set (load_existing_barcodes e order st) = {''7''}"
    using load_existing_barcodes_read [OF assms(1,2)]
    by (simp add: cell_at_def str_of_int_def digit_chars_def)
  have t: "strip ''007'' = ''007''"
    by (simp add: strip_def isspace_def whitespace_chars_def)
  have "process_barcode e' fr (Symbol (Some ''007'')) (cur, load_existing_barcodes e order st) =
        (None, Some (strip ''007''),
         record_scan e' fr (strip ''007'') (load_existing_barcodes e order st))"
    using s assms(3) by (intro process_barcode_new) (simp_all add: t extract_sku_007)
  with s show ?thesis by (simp add: t)
qed

theorem replay_reads_numeric_identifier_as_number_witness:
  "files (snd (update_frame numeric_env running_app)) ''/data/ORD7/barcode_log.csv'' =
     Some (log_header @ log_line ''20240101-120000'' ''007'')
   \<and> barcode_set (snd (update_frame numeric_env running_app)) = {''007''}
   \<and> barcode_set (load_existing_barcodes numeric_env ''ORD7''
                    (snd (update_frame numeric_env running_app))) = {''7''}
   \<and> images (snd (update_frame numeric_env
         (load_existing_barcodes numeric_env ''ORD7''
            (snd (update_frame numeric_env running_app))))) =
       [(''/data/ORD7/007_20240101-120000.jpg'', Frame 1),
        (''/data/ORD7/007_20240101-120000.jpg'', Frame 1)]"
proof -
  let ?st1 = "snd (update_frame numeric_env running_app)"
  let ?st2 = "load_existing_barcodes numeric_env ''ORD7'' ?st1"
  have ks: "tick_scans numeric_env running_app = [(''007'', ''007'')]"
    by (simp add: tick_scans_def numeric_env_fields running_app_fields extract_sku_007)
  have u1: "update_frame numeric_env running_app =
              (None, record_scans numeric_env (Frame 1) [(''007'', ''007'')]
                       (emit [CamRead] running_app))"
    using update_frame_tick [OF running_app_fields(1) numeric_env_fields(1,2)]
    by (simp add: ks)
  have f1: "files ?st1 = log_appended Map.empty ''/data/ORD7/barcode_log.csv''
                           [log_line ''20240101-120000'' ''007'']"
    unfolding u1
    by (simp add: record_scan_files log_appended_def numeric_env_fields running_app_fields
        running_app_paths extract_sku_007)
  then have 1: "files ?st1 ''/data/ORD7/barcode_log.csv'' =
     Some (log_header @ log_line ''20240101-120000'' ''007'')"
    by (simp add: log_appended_def log_text_def)
  have 2: "barcode_set ?st1 = {''007''}"
    unfolding u1 by (simp add: record_scan_fields running_app_fields extract_sku_007)
  have sl: "save_location ?st1 = ''/data''"
    unfolding u1 by (simp add: record_scan_fields location_def running_app_fields)
  have i1: "images ?st1 = [(''/data/ORD7/007_20240101-120000.jpg'', Frame 1)]"
    unfolding u1
    by (simp add: record_scan_images numeric_env_fields running_app_fields image_path_007
        extract_sku_007)
  have oi: "order_number ?st1 = ''ORD7''"
    unfolding u1
    using order_number_cong [of "record_scan numeric_env (Frame 1) ''007''
                                   (emit [CamRead] running_app)" running_app]
    by (simp add: record_scan_fields running_app_fields)
  have p: "files ?st1 (path_join3 (save_location ?st1) ''ORD7'' ''barcode_log.csv'') =
             Some (log_header @ log_line ''20240101-120000'' ''007'')"
    using 1 by (simp add: sl path_join3_def path_join_def)
  note t = replay_reads_numeric_identifier_as_number
      [OF p numeric_env_fields(8) numeric_env_fields(2), of "Frame 1" None]
  from t have 3: "barcode_set ?st2 = {''7''}" by blast
  have c2: "capture ?st2 = Some (0, None)"
    unfolding u1 by (simp add: load_existing_barcodes_keeps record_scan_fields running_app_fields)
  have ks2: "tick_scans numeric_env ?st2 = [(''007'', ''007'')]"
    by (simp add: tick_scans_def numeric_env_fields 3 extract_sku_007)
  have ip: "image_path numeric_env (emit [CamRead] ?st2) ''007''
              = ''/data/ORD7/007_20240101-120000.jpg''"
    using oi
    by (simp add: image_path_def order_folder_def location_def order_number_def
        load_existing_barcodes_keeps sl numeric_env_fields path_join_def image_name_def)
  have 4: "images (snd (update_frame numeric_env ?st2)) =
       [(''/data/ORD7/007_20240101-120000.jpg'', Frame 1),
        (''/data/ORD7/007_20240101-120000.jpg'', Frame 1)]"
    unfolding update_frame_tick [OF c2 numeric_env_fields(1,2)] ks2
    using ip
    by (simp add: record_scan_images numeric_env_fields load_existing_barcodes_keeps i1
        extract_sku_007)
  from 1 2 3 4 show ?thesis by blast
qed

end
